theory Spec2Isabelle
  imports Main
begin

section \<open>The Python library functions that cfddns.py calls\<close>

text \<open>
  \<^verbatim>\<open>cfddns.py\<close> is one class, \<^verbatim>\<open>CloudflareDDNS\<close>, whose methods talk to the network, to
  one cache file, to the clock and to standard output. The library calls it makes on
  strings and dates are modelled first, then the outside world as a record, then the
  methods themselves in the order of the source.

  A Python \<^verbatim>\<open>str\<close> is a \<^typ>\<open>string\<close>; a character stands for the code point of the same
  number (so only code points below 256 are in the model).
\<close>

subsection \<open>\<^verbatim>\<open>str.strip()\<close> and \<^verbatim>\<open>str.split(',')\<close>\<close>

text \<open>
  \<^verbatim>\<open>str.isspace\<close> on the code points below 256: tab, line feed, vertical tab, form feed,
  carriage return, the four separators 28..31, space, NEL (133) and the no-break space (160).
\<close>

definition isspace :: "char \<Rightarrow> bool" where
  "isspace c = ((of_char c :: nat) \<in> set [9, 10, 11, 12, 13, 28, 29, 30, 31, 32, 133, 160])"

definition strip :: "string \<Rightarrow> string" where
  "strip s = rev (dropWhile isspace (rev (dropWhile isspace s)))"

text \<open>\<^verbatim>\<open>s.split(sep)\<close> for a one-character separator: the fields between the separators,
  always at least one field.\<close>

fun split :: "char \<Rightarrow> string \<Rightarrow> string list" where
  "split sep [] = [[]]"
| "split sep (c # cs) =
     (if c = sep then [] # split sep cs
      else (case split sep cs of
              [] \<Rightarrow> [[c]]
            | f # fs \<Rightarrow> (c # f) # fs))"

text \<open>
  What reading a file opened in text mode (\<^verbatim>\<open>open(path, 'r')\<close>, universal newlines) makes of
  the characters on disk: a carriage return followed by a line feed, and a carriage return
  alone, are read as one line feed.
\<close>

fun universal_newlines :: "string \<Rightarrow> string" where
  "universal_newlines [] = []"
| "universal_newlines [c] = (if c = CHR 0x0D then [CHR 0x0A] else [c])"
| "universal_newlines (c # d # cs) =
     (if c = CHR 0x0D \<and> d = CHR 0x0A then CHR 0x0A # universal_newlines cs
      else if c = CHR 0x0D then CHR 0x0A # universal_newlines (d # cs)
      else c # universal_newlines (d # cs))"

subsection \<open>Decimal fields\<close>

definition digit_char :: "nat \<Rightarrow> char" where
  "digit_char d = char_of (48 + d)"

text \<open>The decimal digits of a number, most significant first, as \<^verbatim>\<open>'%d'\<close> prints them.\<close>

fun decimal :: "nat \<Rightarrow> string" where
  "decimal n = (if n < 10 then [digit_char n] else decimal (n div 10) @ [digit_char (n mod 10)])"

declare decimal.simps [simp del]

text \<open>\<^verbatim>\<open>'%0kd' % n\<close>: zeros on the left up to width \<open>k\<close>, never truncating.\<close>

definition zpad :: "nat \<Rightarrow> nat \<Rightarrow> string" where
  "zpad k n = replicate (k - length (decimal n)) CHR ''0'' @ decimal n"

definition digit_of :: "char \<Rightarrow> nat option" where
  "digit_of c =
     (let v = (of_char c :: nat) in if 48 \<le> v \<and> v \<le> 57 then Some (v - 48) else None)"

fun parse_digits_from :: "nat \<Rightarrow> string \<Rightarrow> nat option" where
  "parse_digits_from acc [] = Some acc"
| "parse_digits_from acc (c # cs) =
     (case digit_of c of
        None \<Rightarrow> None
      | Some d \<Rightarrow> parse_digits_from (10 * acc + d) cs)"

text \<open>A field of a date string: decimal digits only, at least one.\<close>

definition parse_digits :: "string \<Rightarrow> nat option" where
  "parse_digits s = (if s = [] then None else parse_digits_from 0 s)"

subsection \<open>\<^verbatim>\<open>datetime\<close> and \<^verbatim>\<open>timedelta\<close>\<close>

text \<open>
  A naive \<^verbatim>\<open>datetime\<close> object holds its calendar fields. \<^verbatim>\<open>datetime.now()\<close> returns a
  naive one, and every object the constructor accepts satisfies \<open>valid_datetime\<close>.
\<close>

record datetime =
  year :: nat
  month :: nat
  day :: nat
  hour :: nat
  minute :: nat
  second :: nat
  microsecond :: nat

definition is_leap :: "nat \<Rightarrow> bool" where
  "is_leap y = (y mod 4 = 0 \<and> (y mod 100 \<noteq> 0 \<or> y mod 400 = 0))"

definition days_in_month :: "nat \<Rightarrow> nat \<Rightarrow> nat" where
  "days_in_month y m =
     (if m = 2 then (if is_leap y then 29 else 28)
      else if m = 4 \<or> m = 6 \<or> m = 9 \<or> m = 11 then 30
      else 31)"

definition valid_datetime :: "datetime \<Rightarrow> bool" where
  "valid_datetime d =
     (1 \<le> year d \<and> year d \<le> 9999 \<and> 1 \<le> month d \<and> month d \<le> 12 \<and>
      1 \<le> day d \<and> day d \<le> days_in_month (year d) (month d) \<and>
      hour d < 24 \<and> minute d < 60 \<and> second d < 60 \<and> microsecond d < 1000000)"

text \<open>The proleptic Gregorian ordinal of the date (\<^verbatim>\<open>date.toordinal\<close>), day 1 being
  0001-01-01.\<close>

definition days_before_year :: "nat \<Rightarrow> nat" where
  "days_before_year y =
     (let p = y - 1 in p * 365 + p div 4 - p div 100 + p div 400)"

definition days_before_month :: "nat \<Rightarrow> nat \<Rightarrow> nat" where
  "days_before_month y m = sum_list (map (days_in_month y) [1..<m])"

definition toordinal :: "datetime \<Rightarrow> nat" where
  "toordinal d = days_before_year (year d) + days_before_month (year d) (month d) + day d"

text \<open>A \<^verbatim>\<open>timedelta\<close> is its length in microseconds, negative when the subtrahend is the
  later date.\<close>

type_synonym timedelta = int

definition microseconds_of :: "datetime \<Rightarrow> int" where
  "microseconds_of d =
     int ((((toordinal d * 24 + hour d) * 60 + minute d) * 60 + second d) * 1000000
          + microsecond d)"

definition datetime_sub :: "datetime \<Rightarrow> datetime \<Rightarrow> timedelta" where
  "datetime_sub a b = microseconds_of a - microseconds_of b"

text \<open>\<^verbatim>\<open>datetime.isoformat()\<close> of a naive object: \<^verbatim>\<open>YYYY-MM-DDTHH:MM:SS\<close>, followed by
  \<^verbatim>\<open>.ffffff\<close> when the microsecond field is not zero.\<close>

definition isoformat :: "datetime \<Rightarrow> string" where
  "isoformat d =
     zpad 4 (year d) @ ''-'' @ zpad 2 (month d) @ ''-'' @ zpad 2 (day d) @ ''T'' @
     zpad 2 (hour d) @ '':'' @ zpad 2 (minute d) @ '':'' @ zpad 2 (second d) @
     (if microsecond d = 0 then [] else ''.'' @ zpad 6 (microsecond d))"

text \<open>
  \<^verbatim>\<open>datetime.fromisoformat\<close> belongs to the interpreter, and what it accepts differs from
  one Python version to the next. The program's methods therefore take its answers from
  the world they run in (the field \<open>fromisoformat\<close> of the world below). An answer is the
  \<^verbatim>\<open>ValueError\<close> it raises, a naive \<^verbatim>\<open>datetime\<close>, or an aware one, which is what a string with
  a UTC offset is read to.
\<close>

datatype iso_result = IsoValueError | Naive datetime | Aware

text \<open>
  \<open>read_isoformat\<close> is one reader of date strings, used for the example worlds at the end
  of the definitions: it reads the strings without a UTC offset of the grammar in the
  documentation of Python 3.10, \<^verbatim>\<open>YYYY-MM-DD[*HH[:MM[:SS[.fff[fff]]]]]\<close>, where \<^verbatim>\<open>*\<close> is any
  one character, every field is made of decimal digits and the fields are in the ranges
  of \<open>valid_datetime\<close>; it gives \<open>None\<close> for every other string. It reads back what
  \<open>isoformat\<close> writes (\<open>read_isoformat_isoformat\<close> below). No method of the program is
  defined through it.
\<close>

definition parse_isoformat_date :: "string \<Rightarrow> (nat \<times> nat \<times> nat) option" where
  "parse_isoformat_date s =
     (if length s = 10 \<and> s ! 4 = CHR ''-'' \<and> s ! 7 = CHR ''-'' then
        (case (parse_digits (take 4 s), parse_digits (take 2 (drop 5 s)),
               parse_digits (take 2 (drop 8 s))) of
           (Some y, Some m, Some d) \<Rightarrow> Some (y, m, d)
         | _ \<Rightarrow> None)
      else None)"

definition parse_fraction :: "string \<Rightarrow> nat option" where
  "parse_fraction s =
     (if length s = 6 then parse_digits s
      else if length s = 3 then map_option (\<lambda>n. n * 1000) (parse_digits s)
      else None)"

definition parse_isoformat_time :: "string \<Rightarrow> (nat \<times> nat \<times> nat \<times> nat) option" where
  "parse_isoformat_time s =
     (case parse_digits (take 2 s) of
        None \<Rightarrow> None
      | Some h \<Rightarrow>
          if length s = 2 then Some (h, 0, 0, 0)
          else if length s < 5 \<or> s ! 2 \<noteq> CHR '':'' then None
          else (case parse_digits (take 2 (drop 3 s)) of
                  None \<Rightarrow> None
                | Some mi \<Rightarrow>
                    if length s = 5 then Some (h, mi, 0, 0)
                    else if length s < 8 \<or> s ! 5 \<noteq> CHR '':'' then None
                    else (case parse_digits (take 2 (drop 6 s)) of
                            None \<Rightarrow> None
                          | Some se \<Rightarrow>
                              if length s = 8 then Some (h, mi, se, 0)
                              else if s ! 8 \<noteq> CHR ''.'' then None
                              else map_option (\<lambda>us. (h, mi, se, us))
                                     (parse_fraction (drop 9 s)))))"

definition make_datetime ::
  "nat \<times> nat \<times> nat \<Rightarrow> nat \<times> nat \<times> nat \<times> nat \<Rightarrow> datetime option" where
  "make_datetime ymd hmsf =
     (case (ymd, hmsf) of
        ((y, m, d), (h, mi, se, us)) \<Rightarrow>
          (let dt = \<lparr>year = y, month = m, day = d, hour = h, minute = mi, second = se,
                     microsecond = us\<rparr>
           in if valid_datetime dt then Some dt else None))"

definition read_isoformat :: "string \<Rightarrow> datetime option" where
  "read_isoformat s =
     (case parse_isoformat_date (take 10 s) of
        None \<Rightarrow> None
      | Some ymd \<Rightarrow>
          if length s = 10 then make_datetime ymd (0, 0, 0, 0)
          else (case parse_isoformat_time (drop 11 s) of
                  None \<Rightarrow> None
                | Some hmsf \<Rightarrow> make_datetime ymd hmsf))"

section \<open>The outside world\<close>

text \<open>
  An exception is a value. \<open>Exception msg\<close> is the plain \<^verbatim>\<open>Exception(msg)\<close> the source
  raises itself; the others are the library's exception classes (all of them
  subclasses of \<^verbatim>\<open>Exception\<close>), with the missing key or attribute where there is one.
\<close>

datatype error =
    Exception string
  | KeyError string
  | AttributeError string
  | ValueError
  | TypeError
  | FileNotFoundError
  | JSONDecodeError
  | RequestException

text \<open>A DNS record of the provider's listing, with the fields the source reads
  (\<^verbatim>\<open>id\<close>, \<^verbatim>\<open>type\<close>, \<^verbatim>\<open>name\<close>) and its content.\<close>

record dns_record =
  rec_id :: string
  rec_type :: string
  rec_name :: string
  rec_content :: string

text \<open>
  A \<^verbatim>\<open>requests.Response\<close>: \<open>status_code\<close>, the body \<open>resp_text\<close> (Python's
  \<^verbatim>\<open>response.text\<close>), and \<open>json_result\<close>, what evaluating \<^verbatim>\<open>response.json()['result']\<close> and
  reading the fields of its records gives: the list of records, or the exception raised
  (\<^verbatim>\<open>JSONDecodeError\<close> for a body that is not JSON, \<^verbatim>\<open>KeyError\<close> for a missing key).
  A request either raises (timeout, connection error) or returns a response.
\<close>

record response =
  status_code :: int
  resp_text :: string
  json_result :: "error + dns_record list"

datatype http_result = Raises | Returns response

text \<open>One entry of the batch request's \<^verbatim>\<open>patches\<close> list.\<close>

record patch =
  patch_id :: string
  patch_content :: string

text \<open>What the process does to the outside, in the order it does it.\<close>

datatype event =
    IpLookup string http_result
  | ProviderRead string string http_result
  | ProviderWrite string string "patch list" http_result
  | CacheWrite string

text \<open>A line printed on standard output, with the clock reading that stamps it. The
  layout of the line (\<^verbatim>\<open>get_now_str\<close>, \<^verbatim>\<open>get_et_str\<close>) is not modelled.\<close>

datatype log_line =
    INFO datetime string string timedelta
  | ERROR datetime error

text \<open>The parsed \<^verbatim>\<open>config.json\<close>: a field is \<open>None\<close> when the key is absent. The fields
  have the types of the specification's data model.\<close>

record config =
  cfg_api_token :: "string option"
  cfg_zone_id :: "string option"
  cfg_domains :: "string list option"

text \<open>
  The world the process runs in.
  \<^item> \<open>config_file\<close>: what \<^verbatim>\<open>open\<close> and \<^verbatim>\<open>json.load\<close> make of \<^verbatim>\<open>config.json\<close>, an error when
    they raise;
  \<^item> \<open>ip_cache_file\<close>: the content of \<^verbatim>\<open>last_ip.txt\<close>, \<open>None\<close> when the file does not exist
    (a file that exists can be read and written; it is written as it is, the line
    separator of the platform being the line feed);
  \<^item> \<open>clock\<close> and \<open>ticks\<close>: the \<open>n\<close>-th call of \<^verbatim>\<open>datetime.now()\<close> returns \<open>clock n\<close>;
  \<^item> \<open>fromisoformat\<close>: what \<^verbatim>\<open>datetime.fromisoformat\<close> of the interpreter answers on a string;
  \<^item> \<open>ip_service\<close>, \<open>provider_get\<close>, \<open>provider_post\<close>: what the network answers to a
    \<^verbatim>\<open>GET\<close> of an IP service, to the provider's \<^verbatim>\<open>GET\<close> (URL and bearer token) and to its
    \<^verbatim>\<open>POST\<close> (URL, bearer token and patches);
  \<^item> \<open>events\<close> and \<open>stdout\<close>: what the process has done and printed so far.
\<close>

record world =
  config_file :: "error + config"
  ip_cache_file :: "string option"
  clock :: "nat \<Rightarrow> datetime"
  ticks :: nat
  fromisoformat :: "string \<Rightarrow> iso_result"
  ip_service :: "string \<Rightarrow> http_result"
  provider_get :: "string \<Rightarrow> string \<Rightarrow> http_result"
  provider_post :: "string \<Rightarrow> string \<Rightarrow> patch list \<Rightarrow> http_result"
  events :: "event list"
  stdout :: "log_line list"

definition emit :: "event \<Rightarrow> world \<Rightarrow> world" where
  "emit e w = w\<lparr>events := events w @ [e]\<rparr>"

definition print :: "log_line \<Rightarrow> world \<Rightarrow> world" where
  "print l w = w\<lparr>stdout := stdout w @ [l]\<rparr>"

text \<open>\<^verbatim>\<open>datetime.now()\<close>: reads the clock, which moves to its next reading.\<close>

definition now :: "world \<Rightarrow> datetime \<times> world" where
  "now w = (clock w (ticks w), w\<lparr>ticks := Suc (ticks w)\<rparr>)"

section \<open>cfddns.py\<close>

subsection \<open>Logging\<close>

text \<open>\<^verbatim>\<open>log_change\<close>: nothing when \<open>last_ip\<close> is \<^verbatim>\<open>None\<close> or empty. Otherwise \<^verbatim>\<open>get_et_str\<close> reads
  \<^verbatim>\<open>et.days\<close>, which raises on \<^verbatim>\<open>None\<close>.\<close>

definition log_change ::
  "string \<Rightarrow> string option \<Rightarrow> timedelta option \<Rightarrow> world \<Rightarrow> (error + unit) \<times> world" where
  "log_change current_ip last_ip et_last_changed w =
     (case last_ip of
        None \<Rightarrow> (Inr (), w)
      | Some l \<Rightarrow>
          if l = [] then (Inr (), w)
          else (case et_last_changed of
                  None \<Rightarrow> (Inl (AttributeError ''days''), w)
                | Some et \<Rightarrow>
                    (case now w of (t, w1) \<Rightarrow> (Inr (), print (INFO t l current_ip et) w1))))"

definition log_error :: "error \<Rightarrow> world \<Rightarrow> world" where
  "log_error e w = (case now w of (t, w1) \<Rightarrow> print (ERROR t e) w1)"

subsection \<open>\<^verbatim>\<open>CloudflareDDNS.__init__\<close>\<close>

record updater =
  api_token :: string
  zone_id :: string
  domains :: "string list"
  cf_api_base :: string

definition init :: "config \<Rightarrow> error + updater" where
  "init cfg =
     (case cfg_api_token cfg of
        None \<Rightarrow> Inl (KeyError ''api_token'')
      | Some tok \<Rightarrow>
          if tok = [] then Inl (Exception ''API token is required'')
          else (case cfg_zone_id cfg of
                  None \<Rightarrow> Inl (KeyError ''zone_id'')
                | Some zone \<Rightarrow>
                    if zone = [] then Inl (Exception ''Zone ID is required'')
                    else (case cfg_domains cfg of
                            None \<Rightarrow> Inl (KeyError ''domains'')
                          | Some ds \<Rightarrow>
                              if ds = [] then Inl (Exception ''At least one domain is required'')
                              else Inr \<lparr>api_token = tok, zone_id = zone, domains = ds,
                                        cf_api_base = ''https://api.cloudflare.com/client/v4''\<rparr>)))"

subsection \<open>\<^verbatim>\<open>get_current_ip\<close>\<close>

definition ip_services :: "string list" where
  "ip_services = [''https://ifconfig.me/ip'', ''https://api.ipify.org'', ''https://icanhazip.com'']"

text \<open>The \<^verbatim>\<open>for\<close> loop over the services: a request that raises, or that returns another
  status than 200, goes on to the next service.\<close>

fun try_services :: "string list \<Rightarrow> world \<Rightarrow> string option \<times> world" where
  "try_services [] w = (None, w)"
| "try_services (service # rest) w =
     (let r = ip_service w service; w1 = emit (IpLookup service r) w in
      case r of
        Raises \<Rightarrow> try_services rest w1
      | Returns resp \<Rightarrow>
          if status_code resp = 200 then (Some (strip (resp_text resp)), w1)
          else try_services rest w1)"

definition get_current_ip :: "world \<Rightarrow> string option \<times> world" where
  "get_current_ip w = try_services ip_services w"

subsection \<open>\<^verbatim>\<open>get_last_known_ip\<close> and \<^verbatim>\<open>save_current_ip\<close>\<close>

text \<open>
  \<^verbatim>\<open>get_last_known_ip\<close>. The file is read in text mode. Unpacking another number of fields
  than two raises \<^verbatim>\<open>ValueError\<close>, as does a timestamp that \<^verbatim>\<open>fromisoformat\<close> rejects, both
  before the clock is read. An aware timestamp is accepted; the clock is then read, and
  subtracting the aware \<^verbatim>\<open>datetime\<close> from the naive \<^verbatim>\<open>now()\<close> raises \<^verbatim>\<open>TypeError\<close>.
\<close>

definition get_last_known_ip ::
  "world \<Rightarrow> (error + string option \<times> timedelta option) \<times> world" where
  "get_last_known_ip w =
     (case ip_cache_file w of
        None \<Rightarrow> (Inr (None, None), w)
      | Some content \<Rightarrow>
          (case split CHR '','' (strip (universal_newlines content)) of
             [last_ip, timestamp] \<Rightarrow>
               (case fromisoformat w timestamp of
                  IsoValueError \<Rightarrow> (Inl ValueError, w)
                | Naive last_changed \<Rightarrow>
                    (case now w of
                       (t, w1) \<Rightarrow> (Inr (Some last_ip, Some (datetime_sub t last_changed)), w1))
                | Aware \<Rightarrow> (case now w of (t, w1) \<Rightarrow> (Inl TypeError, w1)))
           | _ \<Rightarrow> (Inl ValueError, w)))"

definition save_current_ip :: "string \<Rightarrow> world \<Rightarrow> world" where
  "save_current_ip ip w =
     (case now w of
        (t, w1) \<Rightarrow>
          (let content = ip @ '','' @ isoformat t
           in emit (CacheWrite content) (w1\<lparr>ip_cache_file := Some content\<rparr>)))"

subsection \<open>\<^verbatim>\<open>update_dns_records\<close>\<close>

definition records_url :: "updater \<Rightarrow> string" where
  "records_url u = cf_api_base u @ ''/zones/'' @ zone_id u @ ''/dns_records''"

definition batch_url :: "updater \<Rightarrow> string" where
  "batch_url u = cf_api_base u @ ''/zones/'' @ zone_id u @ ''/dns_records/batch''"

text \<open>The identifiers of the A records whose name is one of the configured domains, in
  the order of the listing.\<close>

definition matching_ids :: "updater \<Rightarrow> dns_record list \<Rightarrow> string list" where
  "matching_ids u records =
     map rec_id (filter (\<lambda>r. rec_type r = ''A'' \<and> rec_name r \<in> set (domains u)) records)"

definition patches_for :: "string \<Rightarrow> string list \<Rightarrow> patch list" where
  "patches_for new_ip record_ids =
     map (\<lambda>i. \<lparr>patch_id = i, patch_content = new_ip\<rparr>) record_ids"

text \<open>
  When no record matches, the source builds its message from \<^verbatim>\<open>self.domain\<close>, an attribute
  the class never sets (the constructor sets \<^verbatim>\<open>self.domains\<close>): evaluating the f-string
  raises \<^verbatim>\<open>AttributeError\<close> before the \<^verbatim>\<open>Exception\<close> is built.
\<close>

definition update_dns_records :: "updater \<Rightarrow> string \<Rightarrow> world \<Rightarrow> (error + bool) \<times> world" where
  "update_dns_records u new_ip w =
     (let r = provider_get w (records_url u) (api_token u);
          w1 = emit (ProviderRead (records_url u) (api_token u) r) w in
      case r of
        Raises \<Rightarrow> (Inl RequestException, w1)
      | Returns resp \<Rightarrow>
          if status_code resp \<noteq> 200
          then (Inl (Exception (''Failed to get DNS records: '' @ resp_text resp)), w1)
          else (case json_result resp of
                  Inl e \<Rightarrow> (Inl e, w1)
                | Inr records \<Rightarrow>
                    (let record_ids = matching_ids u records in
                     if record_ids = [] then (Inl (AttributeError ''domain''), w1)
                     else
                       (let data = patches_for new_ip record_ids;
                            r2 = provider_post w1 (batch_url u) (api_token u) data;
                            w2 = emit (ProviderWrite (batch_url u) (api_token u) data r2) w1 in
                        case r2 of
                          Raises \<Rightarrow> (Inl RequestException, w2)
                        | Returns resp2 \<Rightarrow>
                            if status_code resp2 \<noteq> 200
                            then (Inl (Exception (''Failed to update DNS records: ''
                                                    @ resp_text resp2)), w2)
                            else (Inr True, w2)))))"

subsection \<open>\<^verbatim>\<open>run\<close> and the entry point\<close>

text \<open>The body of the \<^verbatim>\<open>try\<close> block of \<^verbatim>\<open>run\<close>: \<open>Inl e\<close> when it raises \<open>e\<close>.\<close>

definition run_body :: "updater \<Rightarrow> world \<Rightarrow> (error + unit) \<times> world" where
  "run_body u w =
     (case get_current_ip w of
        (cur, w1) \<Rightarrow>
          (case cur of
             None \<Rightarrow> (Inl (Exception ''Could not determine current IP address''), w1)
           | Some current_ip \<Rightarrow>
               if current_ip = []
               then (Inl (Exception ''Could not determine current IP address''), w1)
               else (case get_last_known_ip w1 of
                       (Inl e, w2) \<Rightarrow> (Inl e, w2)
                     | (Inr (last_ip, et_last_changed), w2) \<Rightarrow>
                         if Some current_ip \<noteq> last_ip then
                           (case log_change current_ip last_ip et_last_changed w2 of
                              (Inl e, w3) \<Rightarrow> (Inl e, w3)
                            | (Inr _, w3) \<Rightarrow>
                                (case update_dns_records u current_ip w3 of
                                   (Inl e, w4) \<Rightarrow> (Inl e, w4)
                                 | (Inr _, w4) \<Rightarrow> (Inr (), save_current_ip current_ip w4)))
                         else (Inr (), w2))))"

text \<open>\<^verbatim>\<open>run\<close>: the \<^verbatim>\<open>except Exception\<close> clause logs what the body raises, and \<^verbatim>\<open>run\<close> returns.\<close>

definition run :: "updater \<Rightarrow> world \<Rightarrow> world" where
  "run u w =
     (case run_body u w of
        (Inl e, w1) \<Rightarrow> log_error e w1
      | (Inr _, w1) \<Rightarrow> w1)"

text \<open>The \<^verbatim>\<open>__main__\<close> block. The constructor runs outside any \<^verbatim>\<open>try\<close>: what it raises
  ends the process with a traceback and a failure status.\<close>

datatype exit_status = ExitSuccess | ExitFailure error

definition main :: "world \<Rightarrow> exit_status \<times> world" where
  "main w =
     (case config_file w of
        Inl e \<Rightarrow> (ExitFailure e, w)
      | Inr cfg \<Rightarrow>
          (case init cfg of
             Inl e \<Rightarrow> (ExitFailure e, w)
           | Inr ddns \<Rightarrow> (ExitSuccess, run ddns w)))"

section \<open>Observing a run\<close>

text \<open>What a claim says about a run is read off the events and the output it adds.\<close>

definition succeeded :: "http_result \<Rightarrow> bool" where
  "succeeded r = (case r of Raises \<Rightarrow> False | Returns resp \<Rightarrow> status_code resp = 200)"

fun is_provider_call :: "event \<Rightarrow> bool" where
  "is_provider_call (ProviderRead url tok r) = True"
| "is_provider_call (ProviderWrite url tok ps r) = True"
| "is_provider_call (IpLookup s r) = False"
| "is_provider_call (CacheWrite c) = False"

fun is_provider_write :: "event \<Rightarrow> bool" where
  "is_provider_write (ProviderWrite url tok ps r) = True"
| "is_provider_write (ProviderRead url tok r) = False"
| "is_provider_write (IpLookup s r) = False"
| "is_provider_write (CacheWrite c) = False"

fun is_cache_write :: "event \<Rightarrow> bool" where
  "is_cache_write (CacheWrite c) = True"
| "is_cache_write (ProviderRead url tok r) = False"
| "is_cache_write (ProviderWrite url tok ps r) = False"
| "is_cache_write (IpLookup s r) = False"

text \<open>A provider call that came back with another status than 200.\<close>

fun provider_failed :: "event \<Rightarrow> bool" where
  "provider_failed (ProviderRead url tok (Returns resp)) = (status_code resp \<noteq> 200)"
| "provider_failed (ProviderWrite url tok ps (Returns resp)) = (status_code resp \<noteq> 200)"
| "provider_failed (ProviderRead url tok Raises) = False"
| "provider_failed (ProviderWrite url tok ps Raises) = False"
| "provider_failed (IpLookup s r) = False"
| "provider_failed (CacheWrite c) = False"

definition provider_calls :: "world \<Rightarrow> event list" where
  "provider_calls w = filter is_provider_call (events w)"

definition provider_writes :: "world \<Rightarrow> event list" where
  "provider_writes w = filter is_provider_write (events w)"

definition cache_writes :: "world \<Rightarrow> event list" where
  "cache_writes w = filter is_cache_write (events w)"

text \<open>The events a step adds to the ones that were there before it.\<close>

definition new_events :: "world \<Rightarrow> world \<Rightarrow> event list" where
  "new_events w w' = drop (length (events w)) (events w')"

text \<open>Events of \<^verbatim>\<open>get_current_ip\<close> only: no provider call, no write of the cache file.\<close>

definition lookups_only :: "event list \<Rightarrow> bool" where
  "lookups_only ls = (\<forall>e\<in>set ls. \<not> is_provider_call e \<and> \<not> is_provider_write e \<and>
     \<not> is_cache_write e \<and> \<not> provider_failed e)"

fun is_error_line :: "log_line \<Rightarrow> bool" where
  "is_error_line (ERROR t e) = True"
| "is_error_line (INFO t l c et) = False"

section \<open>Example worlds\<close>

text \<open>
  The scenario of the specification's testable properties: the first two IP services
  fail, the third answers \<^verbatim>\<open>203.0.113.5\<close>, which is the address in the cache file; the zone
  lists two A records and a CNAME record, and the two A records are the configured domains.
\<close>

definition example_clock :: "nat \<Rightarrow> datetime" where
  "example_clock n =
     \<lparr>year = 2024, month = 6, day = 15, hour = 12, minute = 30, second = n mod 60,
      microsecond = 250000\<rparr>"

text \<open>
  The answers of \<^verbatim>\<open>datetime.fromisoformat\<close> in the example worlds: a naive \<^verbatim>\<open>datetime\<close> for
  what \<open>read_isoformat\<close> reads (the output of \<open>isoformat\<close> among it), an aware one for one
  string with a UTC offset, \<^verbatim>\<open>ValueError\<close> otherwise (for the word \<^verbatim>\<open>yesterday\<close>, say). The
  examples give it no other strings than these.
\<close>

definition example_fromisoformat :: "string \<Rightarrow> iso_result" where
  "example_fromisoformat s =
     (case read_isoformat s of
        Some d \<Rightarrow> Naive d
      | None \<Rightarrow> if s = ''2024-01-01T00:00:00+00:00'' then Aware else IsoValueError)"

definition plain_response :: "int \<Rightarrow> string \<Rightarrow> http_result" where
  "plain_response code body = Returns \<lparr>status_code = code, resp_text = body, json_result = Inl JSONDecodeError\<rparr>"

definition example_records :: "dns_record list" where
  "example_records =
     [\<lparr>rec_id = ''r1'', rec_type = ''A'', rec_name = ''home.example.com'',
       rec_content = ''203.0.113.5''\<rparr>,
      \<lparr>rec_id = ''r2'', rec_type = ''CNAME'', rec_name = ''www.example.com'',
       rec_content = ''home.example.com''\<rparr>,
      \<lparr>rec_id = ''r3'', rec_type = ''A'', rec_name = ''mail.example.com'',
       rec_content = ''198.51.100.7''\<rparr>]"

definition example_listing :: "dns_record list \<Rightarrow> http_result" where
  "example_listing rs =
     Returns \<lparr>status_code = 200, resp_text = ''listing'', json_result = Inr rs\<rparr>"

definition example_config :: config where
  "example_config =
     \<lparr>cfg_api_token = Some ''token'', cfg_zone_id = Some ''zone'',
      cfg_domains = Some [''home.example.com'', ''mail.example.com'']\<rparr>"

definition example_updater :: updater where
  "example_updater =
     \<lparr>api_token = ''token'', zone_id = ''zone'', domains = [''home.example.com'', ''mail.example.com''],
      cf_api_base = ''https://api.cloudflare.com/client/v4''\<rparr>"

definition example_ip_service :: "string \<Rightarrow> string \<Rightarrow> http_result" where
  "example_ip_service body s =
     (if s = ''https://ifconfig.me/ip'' then Raises
      else if s = ''https://api.ipify.org'' then plain_response 503 ''unavailable''
      else plain_response 200 body)"

definition example_world :: world where
  "example_world =
     \<lparr>config_file = Inr example_config,
      ip_cache_file = Some ''203.0.113.5,2024-01-01T00:00:00'',
      clock = example_clock,
      ticks = 0,
      fromisoformat = example_fromisoformat,
      ip_service = example_ip_service (''203.0.113.5'' @ [CHR 0x0A]),
      provider_get = (\<lambda>url tok. example_listing example_records),
      provider_post = (\<lambda>url tok ps. plain_response 200 ''done''),
      events = [],
      stdout = []\<rparr>"

text \<open>The lookup now answers \<^verbatim>\<open>203.0.113.9\<close>, which is not the address in the cache file.\<close>

definition changed_world :: world where
  "changed_world = example_world\<lparr>ip_service := example_ip_service (''203.0.113.9'' @ [CHR 0x0A])\<rparr>"

text \<open>The same, on a first run: there is no cache file.\<close>

definition first_run_world :: world where
  "first_run_world = changed_world\<lparr>ip_cache_file := None\<rparr>"

text \<open>On a first run, the provider refuses the listing, or the batch update.\<close>

definition read_failure_world :: world where
  "read_failure_world =
     first_run_world\<lparr>provider_get := (\<lambda>url tok. plain_response 500 ''internal error'')\<rparr>"

definition write_failure_world :: world where
  "write_failure_world =
     first_run_world\<lparr>provider_post := (\<lambda>url tok ps. plain_response 403 ''forbidden'')\<rparr>"

text \<open>On a first run, the zone lists no A record at all.\<close>

definition no_match_world :: world where
  "no_match_world =
     first_run_world\<lparr>provider_get := (\<lambda>url tok. example_listing (filter (\<lambda>r. rec_type r \<noteq> ''A'') example_records))\<rparr>"

text \<open>The first IP service answers 200 with a body of a space and a line feed; the
  other two would answer with an address.\<close>

definition blank_answer_world :: world where
  "blank_answer_world =
     example_world\<lparr>ip_service :=
        (\<lambda>s. if s = ''https://ifconfig.me/ip'' then plain_response 200 [CHR 0x20, CHR 0x0A]
             else plain_response 200 ''203.0.113.9'')\<rparr>"

text \<open>A cache file whose second field is not a date.\<close>

definition malformed_state_world :: world where
  "malformed_state_world = example_world\<lparr>ip_cache_file := Some ''203.0.113.5,yesterday''\<rparr>"

text \<open>A cache file whose timestamp carries a UTC offset.\<close>

definition aware_state_world :: world where
  "aware_state_world =
     example_world\<lparr>ip_cache_file := Some ''203.0.113.5,2024-01-01T00:00:00+00:00''\<rparr>"

text \<open>A \<^verbatim>\<open>config.json\<close> without the key \<^verbatim>\<open>zone_id\<close>.\<close>

definition incomplete_config_world :: world where
  "incomplete_config_world =
     changed_world\<lparr>config_file := Inr (example_config\<lparr>cfg_zone_id := None\<rparr>)\<rparr>"

section \<open>Facts about the library functions\<close>

subsection \<open>Stripping and splitting\<close>

lemma strip_all_space: "\<forall>c\<in>set s. isspace c \<Longrightarrow> strip s = []"
proof -
  assume "\<forall>c\<in>set s. isspace c"
  then have e: "dropWhile isspace s = []" by simp
  show ?thesis unfolding strip_def e by simp
qed

lemma dropWhile_hd_id: "s \<noteq> [] \<Longrightarrow> \<not> P (hd s) \<Longrightarrow> dropWhile P s = s"
  by (cases s) simp_all

lemma strip_id: "s \<noteq> [] \<Longrightarrow> \<not> isspace (hd s) \<Longrightarrow> \<not> isspace (last s) \<Longrightarrow> strip s = s"
  by (simp add: strip_def dropWhile_hd_id hd_rev)

lemma universal_newlines_id: "CHR 0x0D \<notin> set s \<Longrightarrow> universal_newlines s = s"
  by (induction s rule: universal_newlines.induct) auto

lemma split_not_Nil: "split sep s \<noteq> []"
  by (induction s) (auto split: list.splits)

lemma split_no_sep: "sep \<notin> set s \<Longrightarrow> split sep s = [s]"
  by (induction s) auto

lemma split_append_sep: "sep \<notin> set a \<Longrightarrow> split sep (a @ sep # b) = a # split sep b"
  by (induction a) auto

subsection \<open>Printing and reading decimal fields\<close>

lemma digit_of_digit_char: "d < 10 \<Longrightarrow> digit_of (digit_char d) = Some d"
  by (simp add: digit_of_def digit_char_def Let_def)

lemma decimal_not_Nil: "decimal n \<noteq> []"
  by (subst decimal.simps) simp

lemma parse_digits_from_append:
  "parse_digits_from acc (xs @ ys) =
     (case parse_digits_from acc xs of None \<Rightarrow> None | Some a \<Rightarrow> parse_digits_from a ys)"
  by (induction xs arbitrary: acc) (auto split: option.splits)

lemma parse_digits_from_decimal:
  "parse_digits_from acc (decimal n) = Some (acc * 10 ^ length (decimal n) + n)"
proof (induction n arbitrary: acc rule: decimal.induct)
  case (1 n)
  show ?case
  proof (cases "n < 10")
    case True
    then show ?thesis
      by (subst (1 2) decimal.simps) (simp add: digit_of_digit_char)
  next
    case False
    have "decimal n = decimal (n div 10) @ [digit_char (n mod 10)]"
      using False by (subst decimal.simps) simp
    then show ?thesis
      using 1 [OF False] by (simp add: parse_digits_from_append digit_of_digit_char algebra_simps)
  qed
qed

lemma parse_digits_from_zeros:
  "parse_digits_from acc (replicate k CHR ''0'' @ s) = parse_digits_from (acc * 10 ^ k) s"
  by (induction k arbitrary: acc) (simp_all add: digit_of_def algebra_simps)

lemma parse_digits_zpad: "parse_digits (zpad k n) = Some n"
  by (simp add: parse_digits_def zpad_def decimal_not_Nil parse_digits_from_zeros
      parse_digits_from_decimal)

lemma length_decimal_le: "0 < k \<Longrightarrow> n < 10 ^ k \<Longrightarrow> length (decimal n) \<le> k"
proof (induction n arbitrary: k rule: decimal.induct)
  case (1 n)
  show ?case
  proof (cases "n < 10")
    case True
    then show ?thesis using 1(2) by (subst decimal.simps) simp
  next
    case False
    have "k \<noteq> Suc 0" using False 1(3) by auto
    then obtain j where k: "k = Suc j" "0 < j"
      using 1(2) by (cases k) auto
    from 1(3) k have "n div 10 < 10 ^ j" by (simp add: less_mult_imp_div_less mult.commute)
    with 1(1) [OF False, of j] k have "length (decimal (n div 10)) \<le> j" by simp
    then show ?thesis using False k by (subst decimal.simps) simp
  qed
qed

lemma length_zpad: "0 < k \<Longrightarrow> n < 10 ^ k \<Longrightarrow> length (zpad k n) = k"
  using length_decimal_le [of k n] by (simp add: zpad_def)

subsection \<open>\<^verbatim>\<open>isoformat\<close> and the reader of the example worlds\<close>

lemma digit_of_Some_plain: "digit_of c = Some d \<Longrightarrow> c \<noteq> CHR '','' \<and> \<not> isspace c"
  by (auto simp: digit_of_def isspace_def Let_def split: if_splits)

lemma digit_of_decimal: "c \<in> set (decimal n) \<Longrightarrow> \<exists>d. digit_of c = Some d"
proof (induction n rule: decimal.induct)
  case (1 n)
  show ?case
  proof (cases "n < 10")
    case True
    with 1(2) show ?thesis
      by (subst (asm) decimal.simps) (simp add: digit_of_digit_char)
  next
    case False
    with 1(2) have "c \<in> set (decimal (n div 10)) \<or> c = digit_char (n mod 10)"
      by (subst (asm) decimal.simps) auto
    then show ?thesis
      using 1(1) [OF False] by (auto simp: digit_of_digit_char)
  qed
qed

lemma digit_of_zpad: "c \<in> set (zpad k n) \<Longrightarrow> \<exists>d. digit_of c = Some d"
  by (auto simp: zpad_def digit_of_def dest: digit_of_decimal)

lemma zpad_not_Nil: "zpad k n \<noteq> []"
  by (simp add: zpad_def decimal_not_Nil)

lemma zpad_plain: "c \<in> set (zpad k n) \<Longrightarrow> c \<noteq> CHR '','' \<and> \<not> isspace c"
  using digit_of_zpad digit_of_Some_plain by blast

lemma isoformat_comma_free: "CHR '','' \<notin> set (isoformat d)"
  using zpad_plain by (auto simp: isoformat_def)

lemma isoformat_no_return: "CHR 0x0D \<notin> set (isoformat d)"
proof -
  have "\<not> isspace c \<Longrightarrow> c \<noteq> CHR 0x0D" for c by (auto simp: isspace_def)
  then show ?thesis using zpad_plain by (auto simp: isoformat_def)
qed

lemma isoformat_not_Nil: "isoformat d \<noteq> []"
  by (simp add: isoformat_def zpad_not_Nil)

lemma isoformat_last_plain: "\<not> isspace (last (isoformat d))"
proof -
  have "last (isoformat d) \<in> set (zpad 2 (second d)) \<union> set (zpad 6 (microsecond d))"
    using last_in_set [OF zpad_not_Nil]
    by (simp add: isoformat_def zpad_not_Nil last_append)
  then show ?thesis using zpad_plain by blast
qed

lemma length2_shape: "length xs = 2 \<Longrightarrow> \<exists>a b. xs = [a, b]"
  by (auto simp: length_Suc_conv numeral_2_eq_2)

lemma length4_shape:
  assumes "length xs = 4"
  shows "\<exists>a b c d. xs = [a, b, c, d]"
proof -
  have "length (take 2 xs) = 2" "length (drop 2 xs) = 2" using assms by simp_all
  then obtain a b c d where "take 2 xs = [a, b]" "drop 2 xs = [c, d]"
    using length2_shape by blast
  then have "xs = [a, b, c, d]" using append_take_drop_id [of 2 xs] by simp
  then show ?thesis by blast
qed

lemma length6_shape:
  assumes "length xs = 6"
  shows "\<exists>a b c d e f. xs = [a, b, c, d, e, f]"
proof -
  have "length (take 2 xs) = 2" "length (drop 2 xs) = 4" using assms by simp_all
  then obtain a b c d e f where "take 2 xs = [a, b]" "drop 2 xs = [c, d, e, f]"
    using length2_shape length4_shape by blast
  then have "xs = [a, b, c, d, e, f]" using append_take_drop_id [of 2 xs] by simp
  then show ?thesis by blast
qed

lemma zpad2_shape: "n < 100 \<Longrightarrow> \<exists>a b. zpad 2 n = [a, b]"
  using length_zpad [of 2 n] by (simp add: length2_shape)

lemma zpad4_shape: "n < 10000 \<Longrightarrow> \<exists>a b c d. zpad 4 n = [a, b, c, d]"
  using length_zpad [of 4 n] by (simp add: length4_shape)

lemma zpad6_shape: "n < 1000000 \<Longrightarrow> \<exists>a b c d e f. zpad 6 n = [a, b, c, d, e, f]"
  using length_zpad [of 6 n] by (simp add: length6_shape)

lemma days_in_month_le: "days_in_month y m \<le> 31"
  by (simp add: days_in_month_def)

lemma read_isoformat_isoformat:
  assumes "valid_datetime d"
  shows "read_isoformat (isoformat d) = Some d"
proof -
  from assms have b: "year d < 10000" "month d < 100" "day d < 100" "hour d < 100"
    "minute d < 100" "second d < 100" "microsecond d < 1000000"
    using days_in_month_le [of "year d" "month d"] by (auto simp: valid_datetime_def)
  obtain y1 y2 y3 y4 where y: "zpad 4 (year d) = [y1, y2, y3, y4]"
    using zpad4_shape [OF b(1)] by blast
  obtain m1 m2 where m: "zpad 2 (month d) = [m1, m2]" using zpad2_shape [OF b(2)] by blast
  obtain d1 d2 where dd: "zpad 2 (day d) = [d1, d2]" using zpad2_shape [OF b(3)] by blast
  obtain h1 h2 where h: "zpad 2 (hour d) = [h1, h2]" using zpad2_shape [OF b(4)] by blast
  obtain n1 n2 where n: "zpad 2 (minute d) = [n1, n2]" using zpad2_shape [OF b(5)] by blast
  obtain s1 s2 where s: "zpad 2 (second d) = [s1, s2]" using zpad2_shape [OF b(6)] by blast
  obtain u1 u2 u3 u4 u5 u6 where u: "zpad 6 (microsecond d) = [u1, u2, u3, u4, u5, u6]"
    using zpad6_shape [OF b(7)] by blast
  have p: "parse_digits [y1, y2, y3, y4] = Some (year d)"
    "parse_digits [m1, m2] = Some (month d)" "parse_digits [d1, d2] = Some (day d)"
    "parse_digits [h1, h2] = Some (hour d)" "parse_digits [n1, n2] = Some (minute d)"
    "parse_digits [s1, s2] = Some (second d)"
    "parse_digits [u1, u2, u3, u4, u5, u6] = Some (microsecond d)"
    using parse_digits_zpad [of 4 "year d"] parse_digits_zpad [of 2 "month d"]
      parse_digits_zpad [of 2 "day d"] parse_digits_zpad [of 2 "hour d"]
      parse_digits_zpad [of 2 "minute d"] parse_digits_zpad [of 2 "second d"]
      parse_digits_zpad [of 6 "microsecond d"]
    by (simp_all only: y m dd h n s u)
  have mk: "make_datetime (year d, month d, day d) (hour d, minute d, second d, microsecond d) = Some d"
    using assms by (cases d) (simp add: make_datetime_def)
  show ?thesis
  proof (cases "microsecond d = 0")
    case True
    have "isoformat d = [y1, y2, y3, y4, CHR ''-'', m1, m2, CHR ''-'', d1, d2, CHR ''T'',
        h1, h2, CHR '':'', n1, n2, CHR '':'', s1, s2]"
      using True by (simp add: isoformat_def y m dd h n s)
    then show ?thesis
      using mk True
      by (simp add: read_isoformat_def parse_isoformat_date_def parse_isoformat_time_def p)
  next
    case False
    have "isoformat d = [y1, y2, y3, y4, CHR ''-'', m1, m2, CHR ''-'', d1, d2, CHR ''T'',
        h1, h2, CHR '':'', n1, n2, CHR '':'', s1, s2, CHR ''.'', u1, u2, u3, u4, u5, u6]"
      using False by (simp add: isoformat_def y m dd h n s u)
    then show ?thesis
      using mk
      by (simp add: read_isoformat_def parse_isoformat_date_def parse_isoformat_time_def
          parse_fraction_def p)
  qed
qed

section \<open>What each step leaves unchanged\<close>

lemma emit_fields [simp]:
  "events (emit e w) = events w @ [e]" "stdout (emit e w) = stdout w"
  "ip_cache_file (emit e w) = ip_cache_file w" "ticks (emit e w) = ticks w"
  "clock (emit e w) = clock w" "ip_service (emit e w) = ip_service w"
  "provider_get (emit e w) = provider_get w" "provider_post (emit e w) = provider_post w"
  "fromisoformat (emit e w) = fromisoformat w"
  by (simp_all add: emit_def)

lemma print_fields [simp]:
  "events (print l w) = events w" "stdout (print l w) = stdout w @ [l]"
  "ip_cache_file (print l w) = ip_cache_file w" "ticks (print l w) = ticks w"
  "clock (print l w) = clock w" "ip_service (print l w) = ip_service w"
  "provider_get (print l w) = provider_get w" "provider_post (print l w) = provider_post w"
  "fromisoformat (print l w) = fromisoformat w"
  by (simp_all add: print_def)

lemma try_services_found:
  "\<forall>p\<in>set pre. \<not> succeeded (ip_service w p) \<Longrightarrow> ip_service w s = Returns resp \<Longrightarrow>
   status_code resp = 200 \<Longrightarrow>
   try_services (pre @ s # post) w =
     (Some (strip (resp_text resp)),
      w\<lparr>events := events w @ map (\<lambda>p. IpLookup p (ip_service w p)) (pre @ [s])\<rparr>)"
proof (induction pre arbitrary: w)
  case Nil
  then show ?case by (simp add: Let_def emit_def)
next
  case (Cons p pre)
  let ?w1 = "emit (IpLookup p (ip_service w p)) w"
  have step: "try_services ((p # pre) @ s # post) w = try_services (pre @ s # post) ?w1"
    using Cons.prems(1) by (auto simp: Let_def succeeded_def split: http_result.splits)
  have "try_services (pre @ s # post) ?w1 =
     (Some (strip (resp_text resp)),
      ?w1\<lparr>events := events ?w1 @ map (\<lambda>p. IpLookup p (ip_service ?w1 p)) (pre @ [s])\<rparr>)"
    using Cons.prems by (intro Cons.IH) simp_all
  then show ?case unfolding step by (simp add: emit_def)
qed

lemma try_services_none:
  "\<forall>p\<in>set l. \<not> succeeded (ip_service w p) \<Longrightarrow>
   try_services l w = (None, w\<lparr>events := events w @ map (\<lambda>p. IpLookup p (ip_service w p)) l\<rparr>)"
proof (induction l arbitrary: w)
  case Nil
  then show ?case by simp
next
  case (Cons p l)
  let ?w1 = "emit (IpLookup p (ip_service w p)) w"
  have step: "try_services (p # l) w = try_services l ?w1"
    using Cons.prems by (auto simp: Let_def succeeded_def split: http_result.splits)
  have "try_services l ?w1 =
     (None, ?w1\<lparr>events := events ?w1 @ map (\<lambda>p. IpLookup p (ip_service ?w1 p)) l\<rparr>)"
    using Cons.prems by (intro Cons.IH) simp_all
  then show ?case unfolding step by (simp add: emit_def)
qed

lemma filter_lookups [simp]:
  "filter is_provider_call (map (\<lambda>p. IpLookup p (f p)) l) = []"
  "filter is_provider_write (map (\<lambda>p. IpLookup p (f p)) l) = []"
  "filter is_cache_write (map (\<lambda>p. IpLookup p (f p)) l) = []"
  by (induction l) simp_all

lemma log_error_fields [simp]:
  "events (log_error e w) = events w"
  "stdout (log_error e w) = stdout w @ [ERROR (clock w (ticks w)) e]"
  "ip_cache_file (log_error e w) = ip_cache_file w" "ticks (log_error e w) = Suc (ticks w)"
  "clock (log_error e w) = clock w" "fromisoformat (log_error e w) = fromisoformat w"
  by (simp_all add: log_error_def now_def)

lemma try_services_frame:
  "\<exists>ls. snd (try_services l w) = w\<lparr>events := events w @ ls\<rparr> \<and>
     (\<forall>e\<in>set ls. \<not> is_provider_call e \<and> \<not> is_provider_write e \<and> \<not> is_cache_write e \<and>
        \<not> provider_failed e)"
proof (induction l arbitrary: w)
  case Nil
  have "snd (try_services [] w) = w\<lparr>events := events w @ []\<rparr>" by simp
  then show ?case by (intro exI [of _ "[]"]) simp
next
  case (Cons p l)
  let ?e = "IpLookup p (ip_service w p)"
  obtain ls where ls: "snd (try_services l (emit ?e w)) = (emit ?e w)\<lparr>events := events (emit ?e w) @ ls\<rparr>"
    "\<forall>e\<in>set ls. \<not> is_provider_call e \<and> \<not> is_provider_write e \<and> \<not> is_cache_write e \<and>
        \<not> provider_failed e"
    using Cons.IH [of "emit ?e w"] by blast
  have ls': "snd (try_services l (w\<lparr>events := events w @ [?e]\<rparr>)) = w\<lparr>events := events w @ ?e # ls\<rparr>"
    using ls(1) by (simp add: emit_def)
  have "snd (try_services (p # l) w) = w\<lparr>events := events w @ [?e]\<rparr> \<or>
      snd (try_services (p # l) w) = w\<lparr>events := events w @ ?e # ls\<rparr>"
    using ls' by (cases "ip_service w p") (auto simp: Let_def emit_def)
  then show ?case
  proof
    assume "snd (try_services (p # l) w) = w\<lparr>events := events w @ [?e]\<rparr>"
    then show ?thesis by (intro exI [of _ "[?e]"]) simp
  next
    assume "snd (try_services (p # l) w) = w\<lparr>events := events w @ ?e # ls\<rparr>"
    then show ?thesis using ls(2) by (intro exI [of _ "?e # ls"]) simp
  qed
qed

lemma get_current_ip_frame:
  assumes "get_current_ip w = (cur, w1)"
  obtains ls where "w1 = w\<lparr>events := events w @ ls\<rparr>"
    and "\<forall>e\<in>set ls. \<not> is_provider_call e \<and> \<not> is_provider_write e \<and> \<not> is_cache_write e \<and>
        \<not> provider_failed e"
  using try_services_frame [of ip_services w] assms by (auto simp: get_current_ip_def)

lemma get_last_known_ip_cases:
  assumes "get_last_known_ip w = (r, w2)"
  shows "(r = Inr (None, None) \<and> w2 = w \<and> ip_cache_file w = None) \<or>
     (r = Inl ValueError \<and> w2 = w \<and> ip_cache_file w \<noteq> None) \<or>
     (r = Inl TypeError \<and> w2 = w\<lparr>ticks := Suc (ticks w)\<rparr> \<and> ip_cache_file w \<noteq> None) \<or>
     (\<exists>l e. r = Inr (Some l, Some e) \<and> w2 = w\<lparr>ticks := Suc (ticks w)\<rparr> \<and> ip_cache_file w \<noteq> None)"
  using assms
  by (auto simp: get_last_known_ip_def now_def split: option.splits list.splits iso_result.splits)

lemma get_last_known_ip_events:
  "get_last_known_ip (w\<lparr>events := es\<rparr>) =
     (fst (get_last_known_ip w), (snd (get_last_known_ip w))\<lparr>events := es\<rparr>)"
  by (auto simp: get_last_known_ip_def now_def split: option.splits list.splits iso_result.splits)

lemma save_current_ip_fields [simp]:
  "events (save_current_ip ip w) =
     events w @ [CacheWrite (ip @ '','' @ isoformat (clock w (ticks w)))]"
  "ip_cache_file (save_current_ip ip w) = Some (ip @ '','' @ isoformat (clock w (ticks w)))"
  "stdout (save_current_ip ip w) = stdout w" "ticks (save_current_ip ip w) = Suc (ticks w)"
  "clock (save_current_ip ip w) = clock w"
  "fromisoformat (save_current_ip ip w) = fromisoformat w"
  by (simp_all add: save_current_ip_def now_def Let_def)

lemma update_dns_records_frame:
  "\<exists>es. snd (update_dns_records u ip w) = w\<lparr>events := events w @ es\<rparr> \<and>
     (\<forall>e\<in>set es. is_provider_call e \<and> \<not> is_cache_write e) \<and>
     ((\<exists>e\<in>set es. provider_failed e) \<longrightarrow>
        (\<exists>msg. fst (update_dns_records u ip w) = Inl (Exception msg))) \<and>
     ((\<exists>b. fst (update_dns_records u ip w) = Inr b) \<longrightarrow> (\<forall>e\<in>set es. \<not> provider_failed e))"
proof -
  let ?r = "provider_get w (records_url u) (api_token u)"
  let ?PR = "ProviderRead (records_url u) (api_token u) ?r"
  show ?thesis
  proof (cases "\<exists>resp records. ?r = Returns resp \<and> status_code resp = 200 \<and>
      json_result resp = Inr records \<and> matching_ids u records \<noteq> []")
    case False
    then have "snd (update_dns_records u ip w) = w\<lparr>events := events w @ [?PR]\<rparr> \<and>
      (provider_failed ?PR \<longrightarrow> (\<exists>msg. fst (update_dns_records u ip w) = Inl (Exception msg))) \<and>
      (\<forall>b. fst (update_dns_records u ip w) \<noteq> Inr b)"
      by (auto simp: update_dns_records_def Let_def emit_def split: http_result.splits sum.splits)
    then show ?thesis by (intro exI [of _ "[?PR]"]) simp
  next
    case True
    then obtain resp records where a: "?r = Returns resp" "status_code resp = 200"
      "json_result resp = Inr records" "matching_ids u records \<noteq> []" by blast
    let ?ps = "patches_for ip (matching_ids u records)"
    let ?r2 = "provider_post w (batch_url u) (api_token u) ?ps"
    let ?PW = "ProviderWrite (batch_url u) (api_token u) ?ps ?r2"
    have "snd (update_dns_records u ip w) = w\<lparr>events := events w @ [?PR, ?PW]\<rparr> \<and>
      (provider_failed ?PW \<longrightarrow> (\<exists>msg. fst (update_dns_records u ip w) = Inl (Exception msg))) \<and>
      ((\<exists>b. fst (update_dns_records u ip w) = Inr b) \<longrightarrow> \<not> provider_failed ?PW) \<and>
      \<not> provider_failed ?PR"
      using a by (auto simp: update_dns_records_def Let_def emit_def split: http_result.splits)
    then show ?thesis by (intro exI [of _ "[?PR, ?PW]"]) simp
  qed
qed

lemma update_dns_records_listed:
  assumes "provider_get w (records_url u) (api_token u) = Returns resp" "status_code resp = 200"
    "json_result resp = Inr records" "matching_ids u records \<noteq> []"
    "provider_post w (batch_url u) (api_token u) (patches_for ip (matching_ids u records)) = r2"
  shows "snd (update_dns_records u ip w) =
      w\<lparr>events := events w @
        [ProviderRead (records_url u) (api_token u) (Returns resp),
         ProviderWrite (batch_url u) (api_token u) (patches_for ip (matching_ids u records)) r2]\<rparr>"
    and "succeeded r2 \<Longrightarrow> fst (update_dns_records u ip w) = Inr True"
    and "\<not> succeeded r2 \<Longrightarrow> \<exists>e. fst (update_dns_records u ip w) = Inl e"
  using assms
  by (auto simp: update_dns_records_def Let_def emit_def succeeded_def split: http_result.splits)

lemma update_dns_records_ticks:
  "update_dns_records u ip (w\<lparr>ticks := n\<rparr>) =
     (fst (update_dns_records u ip w), (snd (update_dns_records u ip w))\<lparr>ticks := n\<rparr>)"
  by (auto simp: update_dns_records_def Let_def emit_def split: http_result.splits sum.splits)

lemma update_dns_records_stdout:
  "update_dns_records u ip (w\<lparr>stdout := out\<rparr>) =
     (fst (update_dns_records u ip w), (snd (update_dns_records u ip w))\<lparr>stdout := out\<rparr>)"
  by (auto simp: update_dns_records_def Let_def emit_def split: http_result.splits sum.splits)

lemma update_dns_records_events:
  "update_dns_records u ip (w\<lparr>events := es\<rparr>) =
     (fst (update_dns_records u ip w),
      (snd (update_dns_records u ip w))\<lparr>events := es @ new_events w (snd (update_dns_records u ip w))\<rparr>)"
  by (auto simp: update_dns_records_def Let_def emit_def new_events_def
      split: http_result.splits sum.splits)

lemma run_body_cases:
  obtains (early) e ls n where
        "run_body u w = (Inl e, w\<lparr>ticks := n, events := events w @ ls\<rparr>)"
      and "lookups_only ls" and "ticks w \<le> n"
      and "(e = Exception ''Could not determine current IP address'' \<and>
           (fst (get_current_ip w) = None \<or> fst (get_current_ip w) = Some [])) \<or>
        ((\<exists>ip. fst (get_current_ip w) = Some ip \<and> ip \<noteq> []) \<and>
           fst (get_last_known_ip w) = Inl e)"
  | (same) ip et ls where "fst (get_current_ip w) = Some ip" and "ip \<noteq> []"
      and "fst (get_last_known_ip w) = Inr (Some ip, et)"
      and "run_body u w = (Inr (), w\<lparr>ticks := Suc (ticks w), events := events w @ ls\<rparr>)"
      and "lookups_only ls"
  | (changed) ip last_ip et ls n out where "fst (get_current_ip w) = Some ip" and "ip \<noteq> []"
      and "fst (get_last_known_ip w) = Inr (last_ip, et)" and "last_ip \<noteq> Some ip"
      and "get_current_ip w = (Some ip, w\<lparr>events := events w @ ls\<rparr>)"
      and "run_body u w =
        (case update_dns_records u ip (w\<lparr>ticks := n, events := events w @ ls, stdout := stdout w @ out\<rparr>) of
           (Inl e, w4) \<Rightarrow> (Inl e, w4)
         | (Inr b, w4) \<Rightarrow> (Inr (), save_current_ip ip w4))"
      and "lookups_only ls" and "ticks w \<le> n" and "\<forall>l\<in>set out. \<not> is_error_line l"
proof -
  obtain cur w1 where g: "get_current_ip w = (cur, w1)" by (cases "get_current_ip w")
  then obtain ls where w1: "w1 = w\<lparr>events := events w @ ls\<rparr>" and ls: "lookups_only ls"
    unfolding lookups_only_def by (rule get_current_ip_frame)
  show thesis
  proof (cases "cur = None \<or> cur = Some []")
    case True
    then have "run_body u w =
        (Inl (Exception ''Could not determine current IP address''),
         w\<lparr>ticks := ticks w, events := events w @ ls\<rparr>)"
      by (auto simp: run_body_def g w1)
    moreover have "fst (get_current_ip w) = None \<or> fst (get_current_ip w) = Some []"
      using True g by auto
    ultimately show thesis using ls
      by (intro early [where ls = ls and n = "ticks w"
            and e = "Exception ''Could not determine current IP address''"])
        simp_all
  next
    case False
    then obtain ip where cur: "cur = Some ip" "ip \<noteq> []" by auto
    obtain r w2 where l: "get_last_known_ip w = (r, w2)" by (cases "get_last_known_ip w")
    define w2' where "w2' = w2\<lparr>events := events w @ ls\<rparr>"
    have l1: "get_last_known_ip w1 = (r, w2')"
      by (simp add: w1 get_last_known_ip_events l w2'_def)
    have step: "run_body u w =
        (case update_dns_records u ip W of
           (Inl e, w4) \<Rightarrow> (Inl e, w4)
         | (Inr b, w4) \<Rightarrow> (Inr (), save_current_ip ip w4))"
      if "r = Inr (last_ip, et)" "last_ip \<noteq> Some ip" "log_change ip last_ip et w2' = (Inr (), W)"
      for last_ip et W
      using that cur by (simp add: run_body_def g l1)
    from get_last_known_ip_cases [OF l] consider
      (none) "r = Inr (None, None)" "w2 = w"
      | (bad) "r = Inl ValueError" "w2 = w"
      | (aware) "r = Inl TypeError" "w2 = w\<lparr>ticks := Suc (ticks w)\<rparr>"
      | (some) l e where "r = Inr (Some l, Some e)" "w2 = w\<lparr>ticks := Suc (ticks w)\<rparr>"
      by blast
    then show thesis
    proof cases
      case bad
      then have "run_body u w = (Inl ValueError, w\<lparr>ticks := ticks w, events := events w @ ls\<rparr>)"
        using cur by (simp add: run_body_def g l1 w2'_def)
      moreover have "fst (get_last_known_ip w) = Inl ValueError"
        using bad l by simp
      moreover have "fst (get_current_ip w) = Some ip" using g cur by simp
      ultimately show thesis using ls cur(2)
        by (intro early [where ls = ls and n = "ticks w" and e = ValueError]) simp_all
    next
      case aware
      then have "run_body u w =
          (Inl TypeError, w\<lparr>ticks := Suc (ticks w), events := events w @ ls\<rparr>)"
        using cur by (simp add: run_body_def g l1 w2'_def)
      moreover have "fst (get_last_known_ip w) = Inl TypeError"
        using aware l by simp
      moreover have "fst (get_current_ip w) = Some ip" using g cur by simp
      ultimately show thesis using ls cur(2)
        by (intro early [where ls = ls and n = "Suc (ticks w)" and e = TypeError]) simp_all
    next
      case none
      have "log_change ip None None w2' =
          (Inr (), w\<lparr>ticks := ticks w, events := events w @ ls, stdout := stdout w @ []\<rparr>)"
        using none by (simp add: log_change_def w2'_def)
      from step [OF none(1) _ this] show thesis
        using cur none l g w1 ls
        by (intro changed [where ip = ip and last_ip = None and et = None and ls = ls
              and n = "ticks w" and out = "[]"]) simp_all
    next
      case some
      show thesis
      proof (cases "l = ip")
        case True
        then have "run_body u w = (Inr (), w\<lparr>ticks := Suc (ticks w), events := events w @ ls\<rparr>)"
          using cur some by (simp add: run_body_def g l1 w2'_def)
        then show thesis
          using cur some l g True ls
          by (intro same [where ip = ip and et = "Some e" and ls = ls]) simp_all
      next
        case False
        show thesis
        proof (cases "l = []")
          case True
          have "log_change ip (Some l) (Some e) w2' =
              (Inr (), w\<lparr>ticks := Suc (ticks w), events := events w @ ls, stdout := stdout w @ []\<rparr>)"
            using some True by (simp add: log_change_def w2'_def)
          from step [OF some(1) _ this] show thesis
            using cur some l g w1 ls False
            by (intro changed [where ip = ip and last_ip = "Some l" and et = "Some e" and ls = ls
                  and n = "Suc (ticks w)" and out = "[]"]) simp_all
        next
          case nonempty: False
          have "log_change ip (Some l) (Some e) w2' =
              (Inr (), w\<lparr>ticks := Suc (Suc (ticks w)), events := events w @ ls,
                 stdout := stdout w @ [INFO (clock w (Suc (ticks w))) l ip e]\<rparr>)"
            using some nonempty by (simp add: log_change_def now_def print_def w2'_def)
          from step [OF some(1) _ this] show thesis
            using cur some l g w1 ls False
            by (intro changed [where ip = ip and last_ip = "Some l" and et = "Some e" and ls = ls
                  and n = "Suc (Suc (ticks w))" and out = "[INFO (clock w (Suc (ticks w))) l ip e]"])
              simp_all
        qed
      qed
    qed
  qed
qed

lemma get_last_known_ip_file:
  "ip_cache_file w' = ip_cache_file w \<Longrightarrow> fromisoformat w' = fromisoformat w \<Longrightarrow>
   map_sum id fst (fst (get_last_known_ip w')) = map_sum id fst (fst (get_last_known_ip w))"
  by (auto simp: get_last_known_ip_def now_def split: option.splits list.splits iso_result.splits)

lemma update_dns_records_fromisoformat:
  "fromisoformat (snd (update_dns_records u ip w)) = fromisoformat w"
  by (auto simp: update_dns_records_def Let_def split: http_result.splits sum.splits)

lemma run_fromisoformat: "fromisoformat (run u w) = fromisoformat w"
proof (cases rule: run_body_cases [of u w])
  case (early e ls n)
  then show ?thesis by (simp add: run_def)
next
  case (same ip et ls)
  then show ?thesis by (simp add: run_def)
next
  case (changed ip last_ip et ls n out)
  let ?W = "w\<lparr>ticks := n, events := events w @ ls, stdout := stdout w @ out\<rparr>"
  have "fromisoformat (snd (update_dns_records u ip ?W)) = fromisoformat w"
    by (simp add: update_dns_records_fromisoformat)
  then show ?thesis
    using changed(6)
    by (cases "update_dns_records u ip ?W"; cases "fst (update_dns_records u ip ?W)")
      (simp_all add: run_def)
qed

section \<open>Evaluating the example worlds\<close>

lemmas example_defs = example_world_def example_ip_service_def plain_response_def
  example_clock_def example_listing_def example_records_def example_config_def
  example_updater_def changed_world_def first_run_world_def read_failure_world_def
  write_failure_world_def no_match_world_def blank_answer_world_def aware_state_world_def
  incomplete_config_world_def malformed_state_world_def

lemmas model_defs = run_def run_body_def get_current_ip_def ip_services_def Let_def
  get_last_known_ip_def log_change_def log_error_def now_def print_def emit_def
  update_dns_records_def save_current_ip_def records_url_def batch_url_def matching_ids_def
  patches_for_def main_def init_def succeeded_def new_events_def provider_calls_def
  provider_writes_def cache_writes_def

lemmas datetime_defs = strip_def isspace_def read_isoformat_def example_fromisoformat_def
  parse_isoformat_date_def
  parse_isoformat_time_def parse_fraction_def parse_digits_def digit_of_def make_datetime_def
  valid_datetime_def days_in_month_def is_leap_def datetime_sub_def microseconds_of_def
  toordinal_def days_before_year_def days_before_month_def upt_rec

lemma example_detects:
  "get_current_ip example_world =
     (Some ''203.0.113.5'', example_world\<lparr>events :=
        [IpLookup ''https://ifconfig.me/ip'' Raises,
         IpLookup ''https://api.ipify.org'' (plain_response 503 ''unavailable''),
         IpLookup ''https://icanhazip.com'' (plain_response 200 (''203.0.113.5'' @ [CHR 0x0A]))]\<rparr>)"
  by (simp add: model_defs example_defs strip_def isspace_def)

lemma example_last_known:
  "fst (get_last_known_ip example_world) = Inr (Some ''203.0.113.5'', Some 14387400250000)"
  by (simp add: get_last_known_ip_def now_def example_defs datetime_defs)

lemma changed_detects:
  "get_current_ip changed_world =
     (Some ''203.0.113.9'', changed_world\<lparr>events :=
        [IpLookup ''https://ifconfig.me/ip'' Raises,
         IpLookup ''https://api.ipify.org'' (plain_response 503 ''unavailable''),
         IpLookup ''https://icanhazip.com'' (plain_response 200 (''203.0.113.9'' @ [CHR 0x0A]))]\<rparr>)"
  by (simp add: model_defs example_defs strip_def isspace_def)

lemma changed_last_known:
  "fst (get_last_known_ip changed_world) = Inr (Some ''203.0.113.5'', Some 14387400250000)"
  by (simp add: get_last_known_ip_def now_def example_defs datetime_defs)

lemma example_matching_ids: "matching_ids example_updater example_records = [''r1'', ''r3'']"
  by (simp add: matching_ids_def example_defs)

lemma example_urls:
  "batch_url example_updater = ''https://api.cloudflare.com/client/v4/zones/zone/dns_records/batch''"
  "records_url example_updater = ''https://api.cloudflare.com/client/v4/zones/zone/dns_records''"
  "api_token example_updater = ''token''"
  by (simp_all add: batch_url_def records_url_def example_updater_def)

lemma isoformat_example_clock:
  "isoformat (example_clock 2) = ''2024-06-15T12:30:02.250000''"
  by (simp add: isoformat_def example_clock_def zpad_def decimal.simps digit_char_def
      char_of_def bit_iff_odd)

lemma changed_fields:
  "ticks changed_world = 0" "clock changed_world = example_clock"
  "stdout changed_world = []" "events changed_world = []"
  "provider_get changed_world = (\<lambda>url tok. example_listing example_records)"
  "provider_post changed_world = (\<lambda>url tok ps. plain_response 200 ''done'')"
  "ip_cache_file changed_world = Some ''203.0.113.5,2024-01-01T00:00:00''"
  by (simp_all add: changed_world_def example_world_def)

lemma changed_last_known_full:
  "get_last_known_ip changed_world =
     (Inr (Some ''203.0.113.5'', Some 14387400250000), changed_world\<lparr>ticks := Suc 0\<rparr>)"
  using changed_last_known get_last_known_ip_cases [OF prod.collapse [symmetric], of changed_world]
  by (auto simp: changed_fields prod_eq_iff)

lemma changed_ticks: "ticks (run example_updater changed_world) = 3"
  by (simp add: run_def run_body_def changed_detects get_last_known_ip_events
      changed_last_known_full log_change_def now_def print_def update_dns_records_def Let_def
      emit_def save_current_ip_def changed_fields example_listing_def example_matching_ids
      plain_response_def)

lemma isoformat_example_clock0:
  "isoformat (example_clock 0) = ''2024-06-15T12:30:00.250000''"
  by (simp add: isoformat_def example_clock_def zpad_def decimal.simps digit_char_def
      char_of_def bit_iff_odd)

section \<open>Detecting the current IP\<close>

text \<open>
  C5. \<^verbatim>\<open>get_current_ip\<close> goes through the fixed list \<open>ip_services\<close> in order. When every
  service before \<open>s\<close> raised or answered with another status than 200 and \<open>s\<close> answers 200,
  the result is the body of that answer without its surrounding whitespace, and exactly
  the services up to \<open>s\<close> were asked, in order. When no service answers 200 the result is
  \<^verbatim>\<open>None\<close>, and every service was asked once, in order. No failure ends the loop.
\<close>

theorem get_current_ip_first_success:
  "(\<forall>pre s post resp.
      ip_services = pre @ s # post \<and> (\<forall>p\<in>set pre. \<not> succeeded (ip_service w p)) \<and>
      ip_service w s = Returns resp \<and> status_code resp = 200 \<longrightarrow>
      get_current_ip w =
        (Some (strip (resp_text resp)),
         w\<lparr>events := events w @ map (\<lambda>p. IpLookup p (ip_service w p)) (pre @ [s])\<rparr>)) \<and>
   ((\<forall>p\<in>set ip_services. \<not> succeeded (ip_service w p)) \<longrightarrow>
      get_current_ip w =
        (None, w\<lparr>events := events w @ map (\<lambda>p. IpLookup p (ip_service w p)) ip_services\<rparr>))"
proof (intro conjI allI impI)
  fix pre s post resp
  assume "ip_services = pre @ s # post \<and> (\<forall>p\<in>set pre. \<not> succeeded (ip_service w p)) \<and>
      ip_service w s = Returns resp \<and> status_code resp = 200"
  then show "get_current_ip w =
        (Some (strip (resp_text resp)),
         w\<lparr>events := events w @ map (\<lambda>p. IpLookup p (ip_service w p)) (pre @ [s])\<rparr>)"
    using try_services_found [of pre w s resp post] by (simp add: get_current_ip_def)
next
  assume "\<forall>p\<in>set ip_services. \<not> succeeded (ip_service w p)"
  then show "get_current_ip w =
        (None, w\<lparr>events := events w @ map (\<lambda>p. IpLookup p (ip_service w p)) ip_services\<rparr>)"
    by (simp add: get_current_ip_def try_services_none)
qed

theorem get_current_ip_first_success_witness:
  "fst (get_current_ip example_world) = Some ''203.0.113.5'' \<and>
   events (snd (get_current_ip example_world)) =
     [IpLookup ''https://ifconfig.me/ip'' Raises,
      IpLookup ''https://api.ipify.org'' (plain_response 503 ''unavailable''),
      IpLookup ''https://icanhazip.com'' (plain_response 200 (''203.0.113.5'' @ [CHR 0x0A]))]"
proof -
  have "ip_services = [''https://ifconfig.me/ip'', ''https://api.ipify.org''] @
      ''https://icanhazip.com'' # []"
    by (simp add: ip_services_def)
  moreover have "\<forall>p\<in>set [''https://ifconfig.me/ip'', ''https://api.ipify.org''].
      \<not> succeeded (ip_service example_world p)"
    by (simp add: example_defs succeeded_def)
  moreover have "ip_service example_world ''https://icanhazip.com'' =
      Returns \<lparr>status_code = 200, resp_text = ''203.0.113.5'' @ [CHR 0x0A], json_result = Inl JSONDecodeError\<rparr>"
    by (simp add: example_defs)
  ultimately have "get_current_ip example_world =
      (Some (strip (''203.0.113.5'' @ [CHR 0x0A])),
       example_world\<lparr>events := events example_world @
         map (\<lambda>p. IpLookup p (ip_service example_world p))
           ([''https://ifconfig.me/ip'', ''https://api.ipify.org''] @ [''https://icanhazip.com''])\<rparr>)"
    using get_current_ip_first_success [of example_world, THEN conjunct1, rule_format,
        of "[''https://ifconfig.me/ip'', ''https://api.ipify.org'']" "''https://icanhazip.com''" "[]"
          "\<lparr>status_code = 200, resp_text = ''203.0.113.5'' @ [CHR 0x0A], json_result = Inl JSONDecodeError\<rparr>"]
    by simp
  then show ?thesis
    by (simp add: strip_def isspace_def example_defs)
qed

text \<open>
  C10. When the first service that answers 200 sends a body that is empty or all
  whitespace, \<^verbatim>\<open>get_current_ip\<close> returns the empty string. \<^verbatim>\<open>run\<close> takes it for a failed
  detection: it logs the error \<^verbatim>\<open>Could not determine current IP address\<close>, asks no later
  service, calls the provider not at all and leaves the cache file alone, whatever the
  later services would have answered.
\<close>

theorem run_blank_ip_answer:
  assumes "ip_services = pre @ s # post"
    and "\<forall>p\<in>set pre. \<not> succeeded (ip_service w p)"
    and "ip_service w s = Returns resp" and "status_code resp = 200"
    and "\<forall>c\<in>set (resp_text resp). isspace c"
  shows "fst (get_current_ip w) = Some [] \<and>
    stdout (run u w) =
      stdout w @ [ERROR (clock w (ticks w)) (Exception ''Could not determine current IP address'')] \<and>
    new_events w (run u w) = map (\<lambda>p. IpLookup p (ip_service w p)) (pre @ [s]) \<and>
    provider_calls (run u w) = provider_calls w \<and>
    cache_writes (run u w) = cache_writes w \<and>
    ip_cache_file (run u w) = ip_cache_file w"
proof -
  have g: "get_current_ip w =
      (Some [], w\<lparr>events := events w @ map (\<lambda>p. IpLookup p (ip_service w p)) (pre @ [s])\<rparr>)"
    using assms try_services_found [of pre w s resp post]
    by (simp add: get_current_ip_def strip_all_space)
  have r: "run u w = log_error (Exception ''Could not determine current IP address'')
      (w\<lparr>events := events w @ map (\<lambda>p. IpLookup p (ip_service w p)) (pre @ [s])\<rparr>)"
    by (simp add: run_def run_body_def g)
  show ?thesis
    unfolding r by (simp add: g new_events_def provider_calls_def cache_writes_def)
qed

theorem run_blank_ip_answer_witness:
  "succeeded (ip_service blank_answer_world ''https://api.ipify.org'') \<and>
   fst (get_current_ip blank_answer_world) = Some [] \<and>
   stdout (run example_updater blank_answer_world) =
     [ERROR (example_clock 0) (Exception ''Could not determine current IP address'')] \<and>
   new_events blank_answer_world (run example_updater blank_answer_world) =
     [IpLookup ''https://ifconfig.me/ip'' (plain_response 200 [CHR 0x20, CHR 0x0A])] \<and>
   ip_cache_file (run example_updater blank_answer_world) = Some ''203.0.113.5,2024-01-01T00:00:00''"
proof -
  have "ip_services = [] @ ''https://ifconfig.me/ip'' #
      [''https://api.ipify.org'', ''https://icanhazip.com'']"
    by (simp add: ip_services_def)
  moreover have "ip_service blank_answer_world ''https://ifconfig.me/ip'' =
      Returns \<lparr>status_code = 200, resp_text = [CHR 0x20, CHR 0x0A], json_result = Inl JSONDecodeError\<rparr>"
    by (simp add: example_defs)
  moreover have "\<forall>c\<in>set [CHR 0x20, CHR 0x0A]. isspace c"
    by (simp add: isspace_def)
  ultimately have "fst (get_current_ip blank_answer_world) = Some [] \<and>
    stdout (run example_updater blank_answer_world) =
      stdout blank_answer_world @ [ERROR (clock blank_answer_world (ticks blank_answer_world))
        (Exception ''Could not determine current IP address'')] \<and>
    new_events blank_answer_world (run example_updater blank_answer_world) =
      map (\<lambda>p. IpLookup p (ip_service blank_answer_world p)) ([] @ [''https://ifconfig.me/ip'']) \<and>
    provider_calls (run example_updater blank_answer_world) = provider_calls blank_answer_world \<and>
    cache_writes (run example_updater blank_answer_world) = cache_writes blank_answer_world \<and>
    ip_cache_file (run example_updater blank_answer_world) = ip_cache_file blank_answer_world"
    using run_blank_ip_answer [of "[]" "''https://ifconfig.me/ip''"
        "[''https://api.ipify.org'', ''https://icanhazip.com'']" blank_answer_world
        "\<lparr>status_code = 200, resp_text = [CHR 0x20, CHR 0x0A], json_result = Inl JSONDecodeError\<rparr>"
        example_updater]
    by simp
  moreover have "succeeded (ip_service blank_answer_world ''https://api.ipify.org'')"
    by (simp add: example_defs succeeded_def)
  ultimately show ?thesis
    by (simp add: example_defs)
qed

section \<open>Constructing the updater\<close>

text \<open>
  C4. The constructor fails exactly when one of \<^verbatim>\<open>api_token\<close>, \<^verbatim>\<open>zone_id\<close>, \<^verbatim>\<open>domains\<close> is
  missing from the configuration or empty. When it fails, the process ends with the
  world as it found it, so before any network call. When it succeeds, the three fields
  are present and not empty, and the updater holds them.
\<close>

theorem init_requires_all_fields:
  "((\<exists>e. init cfg = Inl e) \<longleftrightarrow>
      cfg_api_token cfg \<in> {None, Some []} \<or> cfg_zone_id cfg \<in> {None, Some []} \<or>
      cfg_domains cfg \<in> {None, Some []}) \<and>
   (\<forall>e. config_file w = Inr cfg \<and> init cfg = Inl e \<longrightarrow> main w = (ExitFailure e, w)) \<and>
   (\<forall>u. init cfg = Inr u \<longrightarrow>
      cfg_api_token cfg = Some (api_token u) \<and> api_token u \<noteq> [] \<and>
      cfg_zone_id cfg = Some (zone_id u) \<and> zone_id u \<noteq> [] \<and>
      cfg_domains cfg = Some (domains u) \<and> domains u \<noteq> [])"
  by (auto simp: init_def main_def split: option.splits if_splits)

theorem init_requires_all_fields_witness:
  "init (example_config\<lparr>cfg_zone_id := Some []\<rparr>) = Inl (Exception ''Zone ID is required'') \<and>
   fst (main (example_world\<lparr>config_file := Inr (example_config\<lparr>cfg_zone_id := Some []\<rparr>)\<rparr>)) =
     ExitFailure (Exception ''Zone ID is required'') \<and>
   events (snd (main (example_world\<lparr>config_file := Inr (example_config\<lparr>cfg_zone_id := Some []\<rparr>)\<rparr>))) = [] \<and>
   init example_config = Inr example_updater"
proof -
  let ?cfg = "example_config\<lparr>cfg_zone_id := Some []\<rparr>"
  let ?w = "example_world\<lparr>config_file := Inr ?cfg\<rparr>"
  have i: "init ?cfg = Inl (Exception ''Zone ID is required'')"
    by (simp add: init_def example_defs)
  have "main ?w = (ExitFailure (Exception ''Zone ID is required''), ?w)"
    using init_requires_all_fields [of ?cfg ?w, THEN conjunct2, THEN conjunct1, rule_format,
        of "Exception ''Zone ID is required''"] i
    by simp
  moreover have "events ?w = []" by (simp add: example_defs)
  moreover have "init example_config = Inr example_updater"
    by (simp add: init_def example_defs)
  ultimately show ?thesis using i by simp
qed

section \<open>A run whose IP has not changed\<close>

text \<open>
  A run changes the cache file only by saving a detected IP that is not empty: a cache
  file that the program wrote has no empty address field.
\<close>

lemma run_writes_nonempty:
  "ip_cache_file (run u w) = ip_cache_file w \<or>
   (\<exists>ip. ip \<noteq> [] \<and> fst (get_current_ip w) = Some ip \<and>
      ip_cache_file (run u w) = Some (ip @ '','' @ isoformat (clock w (ticks (run u w) - 1))))"
proof (cases rule: run_body_cases [of u w])
  case (early e ls n)
  then show ?thesis by (simp add: run_def)
next
  case (same ip et ls)
  then show ?thesis by (simp add: run_def)
next
  case (changed ip last_ip et ls n out)
  obtain es where es: "snd (update_dns_records u ip w) = w\<lparr>events := events w @ es\<rparr>"
    using update_dns_records_frame [of u ip w] by blast
  let ?W = "w\<lparr>ticks := n, events := events w @ ls @ es, stdout := stdout w @ out\<rparr>"
  have u3: "update_dns_records u ip
      (w\<lparr>ticks := n, events := events w @ ls, stdout := stdout w @ out\<rparr>) =
      (fst (update_dns_records u ip w), ?W)"
    by (simp add: update_dns_records_stdout update_dns_records_events update_dns_records_ticks
        es new_events_def)
  show ?thesis
  proof (cases "fst (update_dns_records u ip w)")
    case (Inl e)
    then show ?thesis using changed(6) by (simp add: run_def u3)
  next
    case (Inr b)
    then have "run u w = save_current_ip ip ?W" using changed(6) by (simp add: run_def u3)
    then show ?thesis using changed(1,2) by simp
  qed
qed

text \<open>
  C3. The detected current IP of a run is the string that \<^verbatim>\<open>run\<close> accepts from
  \<^verbatim>\<open>get_current_ip\<close>, which is not empty (an empty answer is a failed detection, and
  the run ends before it loads or compares anything). When it equals the last-known
  IP that \<^verbatim>\<open>get_last_known_ip\<close> returns, the run calls the provider not at all, prints
  nothing and leaves the cache file alone (same content, never written).
\<close>

theorem run_unchanged_ip:
  assumes "fst (get_current_ip w) = Some ip" and "ip \<noteq> []"
    and "fst (get_last_known_ip w) = Inr (Some ip, et)"
  shows "provider_calls (run u w) = provider_calls w \<and> stdout (run u w) = stdout w \<and>
    ip_cache_file (run u w) = ip_cache_file w \<and> cache_writes (run u w) = cache_writes w"
proof -
  obtain w1 where g: "get_current_ip w = (Some ip, w1)"
    using assms(1) by (cases "get_current_ip w") simp
  then obtain ls where w1: "w1 = w\<lparr>events := events w @ ls\<rparr>"
    and ls: "\<forall>e\<in>set ls. \<not> is_provider_call e \<and> \<not> is_provider_write e \<and> \<not> is_cache_write e \<and>
        \<not> provider_failed e"
    by (rule get_current_ip_frame)
  obtain w2 where l: "get_last_known_ip w = (Inr (Some ip, et), w2)"
    using assms(3) by (cases "get_last_known_ip w") simp
  then have w2: "w2 = w\<lparr>ticks := Suc (ticks w)\<rparr>"
    using get_last_known_ip_cases [OF l] by auto
  have "run u w = w2\<lparr>events := events w @ ls\<rparr>"
    using assms(2) by (simp add: run_def run_body_def g w1 get_last_known_ip_events l)
  then show ?thesis
    using ls by (simp add: w2 provider_calls_def cache_writes_def filter_empty_conv)
qed

theorem run_unchanged_ip_witness:
  "fst (get_current_ip example_world) = Some ''203.0.113.5'' \<and>
   ip_cache_file example_world = Some ''203.0.113.5,2024-01-01T00:00:00'' \<and>
   provider_calls (run example_updater example_world) = [] \<and>
   stdout (run example_updater example_world) = [] \<and>
   ip_cache_file (run example_updater example_world) = Some ''203.0.113.5,2024-01-01T00:00:00'' \<and>
   cache_writes (run example_updater example_world) = []"
proof -
  have "provider_calls (run example_updater example_world) = provider_calls example_world \<and>
    stdout (run example_updater example_world) = stdout example_world \<and>
    ip_cache_file (run example_updater example_world) = ip_cache_file example_world \<and>
    cache_writes (run example_updater example_world) = cache_writes example_world"
    by (rule run_unchanged_ip [of example_world "''203.0.113.5''" "Some 14387400250000"])
      (simp_all add: example_detects example_last_known)
  then show ?thesis
    by (simp add: provider_calls_def cache_writes_def example_detects) (simp add: example_world_def)
qed

section \<open>A run whose IP has changed\<close>

text \<open>
  C1, amended. The detected IP is not empty and differs from the last-known IP (or
  there is no cache file), and the provider's listing succeeds with at least one
  matching A record. Then the run issues exactly one batch write, whose patches are the
  matched records in order, each with the new IP as content. When that write answers
  200, the run then writes the cache file once, with the new IP and the last clock
  reading of the run; when it does not, the cache file stays as it was.
\<close>

theorem run_changed_ip:
  assumes "fst (get_current_ip w) = Some ip" and "ip \<noteq> []"
    and "fst (get_last_known_ip w) = Inr (last_ip, et)" and "last_ip \<noteq> Some ip"
    and "provider_get w (records_url u) (api_token u) = Returns resp"
    and "status_code resp = 200" and "json_result resp = Inr records"
    and "matching_ids u records \<noteq> []"
    and "provider_post w (batch_url u) (api_token u) (patches_for ip (matching_ids u records)) = r2"
    and "ProviderWrite (batch_url u) (api_token u) (patches_for ip (matching_ids u records)) r2 = pw"
    and "ip @ '','' @ isoformat (clock w (ticks (run u w) - 1)) = content"
  shows "provider_writes (run u w) = provider_writes w @ [pw] \<and>
    map patch_id (patches_for ip (matching_ids u records)) = matching_ids u records \<and>
    (\<forall>p\<in>set (patches_for ip (matching_ids u records)). patch_content p = ip) \<and>
    (succeeded r2 \<longrightarrow>
       new_events w (run u w) = new_events w (snd (get_current_ip w)) @
         [ProviderRead (records_url u) (api_token u) (Returns resp), pw, CacheWrite content] \<and>
       ip_cache_file (run u w) = Some content \<and> ticks w < ticks (run u w)) \<and>
    (\<not> succeeded r2 \<longrightarrow>
       new_events w (run u w) = new_events w (snd (get_current_ip w)) @
         [ProviderRead (records_url u) (api_token u) (Returns resp), pw] \<and>
       ip_cache_file (run u w) = ip_cache_file w)"
proof -
  let ?PR = "ProviderRead (records_url u) (api_token u) (Returns resp)"
  have upd: "snd (update_dns_records u ip w) = w\<lparr>events := events w @ [?PR, pw]\<rparr>"
    and ok: "succeeded r2 \<Longrightarrow> fst (update_dns_records u ip w) = Inr True"
    and ko: "\<not> succeeded r2 \<Longrightarrow> \<exists>e. fst (update_dns_records u ip w) = Inl e"
    using update_dns_records_listed [OF assms(5-9)] assms(10) by auto
  have patches: "map patch_id (patches_for ip (matching_ids u records)) = matching_ids u records \<and>
    (\<forall>p\<in>set (patches_for ip (matching_ids u records)). patch_content p = ip)"
    by (simp add: patches_for_def comp_def)
  have pw: "is_provider_write pw" "\<not> is_cache_write pw" using assms(10) by auto
  show ?thesis
  proof (cases rule: run_body_cases [of u w])
    case (early e ls)
    then show ?thesis using assms(1-3) by auto
  next
    case (same ip' et' ls)
    then show ?thesis using assms(1-4) by auto
  next
    case (changed ip' last_ip' et' ls n out)
    then have ip': "ip' = ip" using assms(1) by simp
    let ?W = "w\<lparr>ticks := n, events := events w @ ls @ [?PR, pw], stdout := stdout w @ out\<rparr>"
    have u3: "update_dns_records u ip
        (w\<lparr>ticks := n, events := events w @ ls, stdout := stdout w @ out\<rparr>) =
        (fst (update_dns_records u ip w), ?W)"
      by (simp add: update_dns_records_stdout update_dns_records_events update_dns_records_ticks
          upd new_events_def)
    have ls: "drop (length (events w)) (events (snd (get_current_ip w))) = ls"
      using changed(5) by simp
    have fl: "filter is_provider_write ls = []"
      using changed(7) by (simp add: lookups_only_def filter_empty_conv)
    show ?thesis
    proof (cases "succeeded r2")
      case True
      have "run u w = save_current_ip ip ?W"
        using changed(6) ok [OF True] by (simp add: run_def ip' u3)
      then show ?thesis
        using True patches fl pw changed(8) assms(11)
        by (auto simp: ls new_events_def provider_writes_def)
    next
      case False
      obtain e where "fst (update_dns_records u ip w) = Inl e" using ko [OF False] by blast
      then have "run u w = log_error e ?W"
        using changed(6) by (simp add: run_def ip' u3)
      then show ?thesis
        using False patches fl pw
        by (auto simp: ls new_events_def provider_writes_def)
    qed
  qed
qed

theorem run_changed_ip_witness:
  "provider_writes (run example_updater changed_world) =
     [ProviderWrite ''https://api.cloudflare.com/client/v4/zones/zone/dns_records/batch'' ''token''
        [\<lparr>patch_id = ''r1'', patch_content = ''203.0.113.9''\<rparr>,
         \<lparr>patch_id = ''r3'', patch_content = ''203.0.113.9''\<rparr>]
        (plain_response 200 ''done'')] \<and>
   ip_cache_file (run example_updater changed_world) =
     Some ''203.0.113.9,2024-06-15T12:30:02.250000'' \<and>
   last (events (run example_updater changed_world)) =
     CacheWrite ''203.0.113.9,2024-06-15T12:30:02.250000''"
proof -
  let ?w = changed_world and ?u = example_updater
  let ?ps = "[\<lparr>patch_id = ''r1'', patch_content = ''203.0.113.9''\<rparr>,
         \<lparr>patch_id = ''r3'', patch_content = ''203.0.113.9''\<rparr>]"
  let ?pw = "ProviderWrite ''https://api.cloudflare.com/client/v4/zones/zone/dns_records/batch''
      ''token'' ?ps (plain_response 200 ''done'')"
  let ?content = "''203.0.113.9'' @ '','' @ isoformat (clock ?w (ticks (run ?u ?w) - 1))"
  have 1: "fst (get_current_ip ?w) = Some ''203.0.113.9''" by (simp add: changed_detects)
  have 2: "''203.0.113.9'' \<noteq> []" by simp
  have 3: "fst (get_last_known_ip ?w) = Inr (Some ''203.0.113.5'', Some 14387400250000)"
    by (rule changed_last_known)
  have 4: "Some ''203.0.113.5'' \<noteq> Some ''203.0.113.9''" by simp
  have 5: "provider_get ?w (records_url ?u) (api_token ?u) =
      Returns \<lparr>status_code = 200, resp_text = ''listing'', json_result = Inr example_records\<rparr>"
    by (simp add: changed_world_def example_world_def example_listing_def)
  have 6: "status_code \<lparr>status_code = 200, resp_text = ''listing'',
      json_result = Inr example_records\<rparr> = 200" by simp
  have 7: "json_result \<lparr>status_code = 200, resp_text = ''listing'',
      json_result = Inr example_records\<rparr> = Inr example_records" by simp
  have 8: "matching_ids ?u example_records \<noteq> []" by (simp add: example_matching_ids)
  have 9: "provider_post ?w (batch_url ?u) (api_token ?u)
      (patches_for ''203.0.113.9'' (matching_ids ?u example_records)) = plain_response 200 ''done''"
    by (simp add: changed_world_def example_world_def)
  have 10: "ProviderWrite (batch_url ?u) (api_token ?u)
      (patches_for ''203.0.113.9'' (matching_ids ?u example_records)) (plain_response 200 ''done'') = ?pw"
    by (simp add: example_matching_ids patches_for_def example_urls)
  have ok: "succeeded (plain_response 200 ''done'')" by (simp add: succeeded_def plain_response_def)
  from run_changed_ip [of ?w "''203.0.113.9''" "Some ''203.0.113.5''" "Some 14387400250000" ?u,
      OF 1 2 3 4 5 6 7 8 9 10 refl] ok
  have "provider_writes (run ?u ?w) = provider_writes ?w @ [?pw]"
    and "new_events ?w (run ?u ?w) = new_events ?w (snd (get_current_ip ?w)) @
         [ProviderRead (records_url ?u) (api_token ?u)
            (Returns \<lparr>status_code = 200, resp_text = ''listing'', json_result = Inr example_records\<rparr>),
          ?pw, CacheWrite ?content]"
    and "ip_cache_file (run ?u ?w) = Some ?content"
    by simp_all
  moreover have "events ?w = []" "provider_writes ?w = []"
    by (simp_all add: changed_world_def example_world_def provider_writes_def)
  moreover have "isoformat (clock ?w (ticks (run ?u ?w) - 1)) = ''2024-06-15T12:30:02.250000''"
    by (simp add: changed_ticks changed_fields isoformat_example_clock)
  ultimately show ?thesis
    by (simp add: new_events_def)
qed

text \<open>
  As stated, C1 fails when the listing does not succeed: on a first run with a changed
  IP whose listing request is answered with status 500, no batch write is issued.
\<close>

theorem run_changed_ip_counterexample:
  "fst (get_current_ip read_failure_world) = Some ''203.0.113.9'' \<and>
   fst (get_last_known_ip read_failure_world) = Inr (None, None) \<and>
   provider_writes (run example_updater read_failure_world) = []"
  by (simp add: model_defs example_defs strip_def isspace_def)

text \<open>
  C2. When a provider call of the run, the listing or the batch write, answers with
  another status than 200, the body of \<^verbatim>\<open>run\<close> raises an \<^verbatim>\<open>Exception\<close>, which is the last
  line logged; the cache file keeps its content (or stays absent) and is not written, so
  the next run loads the same last-known IP.
\<close>

theorem run_provider_failure:
  assumes "e \<in> set (new_events w (run u w))" and "provider_failed e"
  shows "ip_cache_file (run u w) = ip_cache_file w \<and> cache_writes (run u w) = cache_writes w \<and>
    (\<exists>msg. fst (run_body u w) = Inl (Exception msg) \<and>
       last (stdout (run u w)) = ERROR (clock w (ticks (run u w) - 1)) (Exception msg)) \<and>
    map_sum id fst (fst (get_last_known_ip (run u w))) = map_sum id fst (fst (get_last_known_ip w))"
proof -
  have "ip_cache_file (run u w) = ip_cache_file w \<and> cache_writes (run u w) = cache_writes w \<and>
    (\<exists>msg. fst (run_body u w) = Inl (Exception msg) \<and>
       last (stdout (run u w)) = ERROR (clock w (ticks (run u w) - 1)) (Exception msg))"
  proof (cases rule: run_body_cases [of u w])
    case (early e' ls)
    then have "new_events w (run u w) = ls" by (simp add: run_def new_events_def)
    then show ?thesis using assms early(2) by (auto simp: lookups_only_def)
  next
    case (same ip et ls)
    then have "new_events w (run u w) = ls" by (simp add: run_def new_events_def)
    then show ?thesis using assms same(5) by (auto simp: lookups_only_def)
  next
    case (changed ip last_ip et ls n out)
    obtain es where es: "snd (update_dns_records u ip w) = w\<lparr>events := events w @ es\<rparr>"
      "\<forall>e\<in>set es. is_provider_call e \<and> \<not> is_cache_write e"
      "(\<exists>e\<in>set es. provider_failed e) \<longrightarrow>
        (\<exists>msg. fst (update_dns_records u ip w) = Inl (Exception msg))"
      "(\<exists>b. fst (update_dns_records u ip w) = Inr b) \<longrightarrow> (\<forall>e\<in>set es. \<not> provider_failed e)"
      using update_dns_records_frame [of u ip w] by blast
    let ?W = "w\<lparr>ticks := n, events := events w @ ls @ es, stdout := stdout w @ out\<rparr>"
    have u3: "update_dns_records u ip
        (w\<lparr>ticks := n, events := events w @ ls, stdout := stdout w @ out\<rparr>) =
        (fst (update_dns_records u ip w), ?W)"
      by (simp add: update_dns_records_stdout update_dns_records_events update_dns_records_ticks
          es(1) new_events_def)
    have fl: "filter is_cache_write ls = []" "filter is_cache_write es = []"
      using changed(7) es(2) by (simp_all add: lookups_only_def filter_empty_conv)
    show ?thesis
    proof (cases "fst (update_dns_records u ip w)")
      case (Inr b)
      then have "run u w = save_current_ip ip ?W"
        using changed(6) by (simp add: run_def u3)
      then have "set (new_events w (run u w)) \<subseteq>
          set ls \<union> set es \<union> {CacheWrite (ip @ '','' @ isoformat (clock w n))}"
        by (auto simp: new_events_def)
      then show ?thesis
        using assms es(4) Inr changed(7) by (auto simp: lookups_only_def)
    next
      case (Inl e')
      then have r: "run u w = log_error e' ?W" and b: "run_body u w = (Inl e', ?W)"
        using changed(6) by (simp_all add: run_def u3)
      then have "set (new_events w (run u w)) \<subseteq> set ls \<union> set es"
        by (auto simp: new_events_def)
      then have "e \<in> set es" using assms changed(7) by (auto simp: lookups_only_def)
      then obtain msg where "e' = Exception msg" using es(3) assms(2) Inl by auto
      then show ?thesis
        using fl by (simp add: r b cache_writes_def)
    qed
  qed
  then show ?thesis using get_last_known_ip_file [of "run u w" w] by (simp add: run_fromisoformat)
qed

theorem run_provider_failure_witness:
  "new_events write_failure_world (run example_updater write_failure_world) =
     [IpLookup ''https://ifconfig.me/ip'' Raises,
      IpLookup ''https://api.ipify.org'' (plain_response 503 ''unavailable''),
      IpLookup ''https://icanhazip.com'' (plain_response 200 (''203.0.113.9'' @ [CHR 0x0A])),
      ProviderRead ''https://api.cloudflare.com/client/v4/zones/zone/dns_records'' ''token''
        (example_listing example_records),
      ProviderWrite ''https://api.cloudflare.com/client/v4/zones/zone/dns_records/batch'' ''token''
        [\<lparr>patch_id = ''r1'', patch_content = ''203.0.113.9''\<rparr>,
         \<lparr>patch_id = ''r3'', patch_content = ''203.0.113.9''\<rparr>]
        (plain_response 403 ''forbidden'')] \<and>
   ip_cache_file (run example_updater write_failure_world) = None \<and>
   cache_writes (run example_updater write_failure_world) = [] \<and>
   stdout (run example_updater write_failure_world) =
     [ERROR (example_clock 0) (Exception ''Failed to update DNS records: forbidden'')]"
proof -
  let ?w = write_failure_world and ?u = example_updater
  let ?pw = "ProviderWrite ''https://api.cloudflare.com/client/v4/zones/zone/dns_records/batch'' ''token''
        [\<lparr>patch_id = ''r1'', patch_content = ''203.0.113.9''\<rparr>,
         \<lparr>patch_id = ''r3'', patch_content = ''203.0.113.9''\<rparr>]
        (plain_response 403 ''forbidden'')"
  have ev: "new_events ?w (run ?u ?w) =
     [IpLookup ''https://ifconfig.me/ip'' Raises,
      IpLookup ''https://api.ipify.org'' (plain_response 503 ''unavailable''),
      IpLookup ''https://icanhazip.com'' (plain_response 200 (''203.0.113.9'' @ [CHR 0x0A])),
      ProviderRead ''https://api.cloudflare.com/client/v4/zones/zone/dns_records'' ''token''
        (example_listing example_records), ?pw]"
    by (simp add: model_defs example_defs strip_def isspace_def)
  have out: "stdout (run ?u ?w) =
     [ERROR (example_clock 0) (Exception ''Failed to update DNS records: forbidden'')]"
    by (simp add: model_defs example_defs strip_def isspace_def)
  have "?pw \<in> set (new_events ?w (run ?u ?w))" unfolding ev by simp
  moreover have "provider_failed ?pw" by (simp add: plain_response_def)
  ultimately have "ip_cache_file (run ?u ?w) = ip_cache_file ?w \<and>
      cache_writes (run ?u ?w) = cache_writes ?w"
    using run_provider_failure [of ?pw ?w ?u] by blast
  moreover have "ip_cache_file ?w = None" "cache_writes ?w = []"
    by (simp_all add: example_defs cache_writes_def)
  ultimately show ?thesis using ev out by simp
qed

section \<open>No matching record\<close>

text \<open>
  C6. When the listing succeeds and no record of type A has a configured domain as its
  name, \<^verbatim>\<open>update_dns_records\<close> fails after the one read request and issues no write. The
  error it raises is the \<^verbatim>\<open>AttributeError\<close> of the missing attribute \<^verbatim>\<open>domain\<close>, not the
  message \<^verbatim>\<open>No A record found\<close> that the source is building at that point.
\<close>

theorem update_dns_records_no_match:
  assumes "provider_get w (records_url u) (api_token u) = Returns resp"
    and "status_code resp = 200" and "json_result resp = Inr records"
    and "\<forall>r\<in>set records. rec_type r = ''A'' \<longrightarrow> rec_name r \<notin> set (domains u)"
  shows "update_dns_records u new_ip w =
    (Inl (AttributeError ''domain''),
     w\<lparr>events := events w @ [ProviderRead (records_url u) (api_token u) (Returns resp)]\<rparr>)"
proof -
  have "matching_ids u records = []"
    using assms(4) by (auto simp: matching_ids_def filter_empty_conv)
  then show ?thesis
    using assms(1-3) by (simp add: update_dns_records_def Let_def emit_def)
qed

theorem update_dns_records_no_match_witness:
  "fst (update_dns_records example_updater ''203.0.113.9'' no_match_world) =
     Inl (AttributeError ''domain'') \<and>
   provider_writes (snd (update_dns_records example_updater ''203.0.113.9'' no_match_world)) = [] \<and>
   stdout (run example_updater no_match_world) =
     [ERROR (example_clock 0) (AttributeError ''domain'')]"
proof -
  let ?resp = "\<lparr>status_code = 200, resp_text = ''listing'',
      json_result = Inr (filter (\<lambda>r. rec_type r \<noteq> ''A'') example_records)\<rparr>"
  have "provider_get no_match_world (records_url example_updater) (api_token example_updater) =
      Returns ?resp"
    by (simp add: example_defs)
  moreover have "\<forall>r\<in>set (filter (\<lambda>r. rec_type r \<noteq> ''A'') example_records).
      rec_type r = ''A'' \<longrightarrow> rec_name r \<notin> set (domains example_updater)"
    by simp
  ultimately have "update_dns_records example_updater ''203.0.113.9'' no_match_world =
    (Inl (AttributeError ''domain''),
     no_match_world\<lparr>events := events no_match_world @
       [ProviderRead (records_url example_updater) (api_token example_updater) (Returns ?resp)]\<rparr>)"
    using update_dns_records_no_match [of no_match_world example_updater ?resp
        "filter (\<lambda>r. rec_type r \<noteq> ''A'') example_records" "''203.0.113.9''"]
    by simp
  moreover have "events no_match_world = []" by (simp add: example_defs)
  moreover have "stdout (run example_updater no_match_world) =
     [ERROR (example_clock 0) (AttributeError ''domain'')]"
    by (simp add: model_defs example_defs strip_def isspace_def)
  ultimately show ?thesis by (simp add: provider_writes_def)
qed

section \<open>The cache file\<close>

text \<open>
  C7, amended. For every IP string without a comma and without a carriage return that
  does not start with a whitespace character, saving it and loading it back returns that
  string, and as elapsed time the difference of the two clock readings, the one of the
  load and the one of the save: zero when the clock has not moved in between. The
  interpreter's \<^verbatim>\<open>fromisoformat\<close> is taken to read back the timestamp that \<^verbatim>\<open>isoformat\<close> wrote,
  which is what Python documents it for.
\<close>

theorem save_then_load:
  assumes "CHR '','' \<notin> set ip" and "CHR 0x0D \<notin> set ip" and "ip = [] \<or> \<not> isspace (hd ip)"
    and "fromisoformat w (isoformat (clock w (ticks w))) = Naive (clock w (ticks w))"
  shows "fst (get_last_known_ip (save_current_ip ip w)) =
      Inr (Some ip, Some (datetime_sub (clock w (Suc (ticks w))) (clock w (ticks w)))) \<and>
    (clock w (Suc (ticks w)) = clock w (ticks w) \<longrightarrow>
       fst (get_last_known_ip (save_current_ip ip w)) = Inr (Some ip, Some 0))"
proof -
  let ?t = "clock w (ticks w)"
  let ?c = "ip @ '','' @ isoformat ?t"
  have "CHR 0x0D \<notin> set ?c"
    using assms(2) isoformat_no_return [of ?t] by simp
  then have n: "universal_newlines ?c = ?c" by (rule universal_newlines_id)
  have "?c \<noteq> []" by simp
  moreover have "\<not> isspace (hd ?c)"
    using assms(3) by (cases ip) (simp_all add: isspace_def)
  moreover have "\<not> isspace (last ?c)"
    using isoformat_last_plain [of ?t] by (simp add: isoformat_not_Nil)
  ultimately have s: "strip ?c = ?c" by (rule strip_id)
  have f: "split CHR '','' ?c = [ip, isoformat ?t]"
    using split_append_sep [OF assms(1), of "isoformat ?t"]
    by (simp add: split_no_sep isoformat_comma_free)
  have "fst (get_last_known_ip (save_current_ip ip w)) =
      Inr (Some ip, Some (datetime_sub (clock w (Suc (ticks w))) ?t))"
    using n s f assms(4)
    by (simp add: get_last_known_ip_def now_def)
  then show ?thesis by (simp add: datetime_sub_def)
qed

theorem save_then_load_witness:
  "fst (get_last_known_ip (save_current_ip ''203.0.113.5'' example_world)) =
     Inr (Some ''203.0.113.5'', Some 1000000) \<and>
   fst (get_last_known_ip (save_current_ip [] example_world)) = Inr (Some [], Some 1000000)"
proof -
  have "valid_datetime (example_clock 0)"
    by (simp add: example_clock_def valid_datetime_def days_in_month_def)
  then have v: "fromisoformat example_world (isoformat (clock example_world (ticks example_world))) =
      Naive (clock example_world (ticks example_world))"
    by (simp add: example_world_def example_fromisoformat_def read_isoformat_isoformat)
  have d: "datetime_sub (clock example_world (Suc (ticks example_world)))
      (clock example_world (ticks example_world)) = 1000000"
    by (simp add: example_defs datetime_sub_def microseconds_of_def toordinal_def)
  have "CHR '','' \<notin> set ''203.0.113.5''" "CHR 0x0D \<notin> set ''203.0.113.5''"
    "''203.0.113.5'' = [] \<or> \<not> isspace (hd ''203.0.113.5'')"
    by (simp_all add: isspace_def)
  from save_then_load [OF this v] save_then_load [of "[]" example_world] v d
  show ?thesis by simp
qed

text \<open>
  As stated, C7 fails for a comma-free string with a carriage return in it, which an IP
  service can send and \<^verbatim>\<open>run\<close> then saves: the file is read back in text mode, and the
  carriage return comes back as a line feed. (It fails for a string that starts with a
  space as well, since \<^verbatim>\<open>get_last_known_ip\<close> strips the content of the file.)
\<close>

theorem save_then_load_counterexample:
  "CHR '','' \<notin> set (''1.2.3.4'' @ CHR 0x0D # ''5'') \<and>
   fst (get_last_known_ip (save_current_ip (''1.2.3.4'' @ CHR 0x0D # ''5'') example_world)) =
     Inr (Some (''1.2.3.4'' @ CHR 0x0A # ''5''), Some 1000000)"
proof -
  let ?x = "''1.2.3.4'' @ CHR 0x0D # ''5''"
  have c: "ip_cache_file (save_current_ip ?x example_world) =
      Some (''1.2.3.4'' @ CHR 0x0D # ''5,2024-06-15T12:30:00.250000'')"
    "ticks (save_current_ip ?x example_world) = 1"
    "clock (save_current_ip ?x example_world) = example_clock"
    "fromisoformat (save_current_ip ?x example_world) = example_fromisoformat"
    using isoformat_example_clock0 by (simp_all add: example_world_def)
  have "fst (get_last_known_ip (save_current_ip ?x example_world)) =
     Inr (Some (''1.2.3.4'' @ CHR 0x0A # ''5''), Some 1000000)"
    unfolding get_last_known_ip_def now_def c
    by (simp add: example_clock_def datetime_defs)
  then show ?thesis by simp
qed

text \<open>
  C8. \<^verbatim>\<open>get_last_known_ip\<close> returns \<^verbatim>\<open>(None, None)\<close> exactly when the cache file does not
  exist. When the file exists and its content, read and stripped, has not two
  comma-separated fields, or \<^verbatim>\<open>fromisoformat\<close> rejects its second field, the \<^verbatim>\<open>ValueError\<close>
  leaves the method, before the clock is read. When \<^verbatim>\<open>fromisoformat\<close> reads the second
  field to an aware \<^verbatim>\<open>datetime\<close>, the clock is read and the \<^verbatim>\<open>TypeError\<close> of the subtraction
  leaves the method. In a run that has detected an IP, either error reaches the handler
  of \<^verbatim>\<open>run\<close>, which logs it, and the run neither calls the provider nor touches the file:
  the state is not taken for absent.
\<close>

theorem get_last_known_ip_missing_or_malformed:
  "(fst (get_last_known_ip w) = Inr (None, None) \<longleftrightarrow> ip_cache_file w = None) \<and>
   (\<forall>content. ip_cache_file w = Some content \<and>
       (length (split CHR '','' (strip (universal_newlines content))) \<noteq> 2 \<or>
        fromisoformat w (split CHR '','' (strip (universal_newlines content)) ! 1) =
          IsoValueError) \<longrightarrow>
       get_last_known_ip w = (Inl ValueError, w)) \<and>
   (\<forall>content. ip_cache_file w = Some content \<and>
       length (split CHR '','' (strip (universal_newlines content))) = 2 \<and>
       fromisoformat w (split CHR '','' (strip (universal_newlines content)) ! 1) = Aware \<longrightarrow>
       get_last_known_ip w = (Inl TypeError, w\<lparr>ticks := Suc (ticks w)\<rparr>)) \<and>
   (\<forall>ip e. fst (get_current_ip w) = Some ip \<and> ip \<noteq> [] \<and>
       fst (get_last_known_ip w) = Inl e \<longrightarrow>
       fst (run_body u w) = Inl e \<and>
       stdout (run u w) = stdout w @ [ERROR (clock w (ticks (run u w) - 1)) e] \<and>
       provider_calls (run u w) = provider_calls w \<and>
       ip_cache_file (run u w) = ip_cache_file w)"
proof (intro conjI allI impI)
  show "fst (get_last_known_ip w) = Inr (None, None) \<longleftrightarrow> ip_cache_file w = None"
    using get_last_known_ip_cases [OF prod.collapse [symmetric], of w] by auto
next
  fix content
  assume a: "ip_cache_file w = Some content \<and>
       (length (split CHR '','' (strip (universal_newlines content))) \<noteq> 2 \<or>
        fromisoformat w (split CHR '','' (strip (universal_newlines content)) ! 1) =
          IsoValueError)"
  show "get_last_known_ip w = (Inl ValueError, w)"
  proof (cases "length (split CHR '','' (strip (universal_newlines content))) = 2")
    case True
    then obtain a b where "split CHR '','' (strip (universal_newlines content)) = [a, b]"
      using length2_shape by blast
    then show ?thesis using a by (simp add: get_last_known_ip_def)
  next
    case False
    then show ?thesis
      using a by (auto simp: get_last_known_ip_def split: list.splits)
  qed
next
  fix content
  assume a: "ip_cache_file w = Some content \<and>
       length (split CHR '','' (strip (universal_newlines content))) = 2 \<and>
       fromisoformat w (split CHR '','' (strip (universal_newlines content)) ! 1) = Aware"
  then obtain a b where "split CHR '','' (strip (universal_newlines content)) = [a, b]"
    using length2_shape by blast
  then show "get_last_known_ip w = (Inl TypeError, w\<lparr>ticks := Suc (ticks w)\<rparr>)"
    using a by (simp add: get_last_known_ip_def now_def)
next
  fix ip e
  assume a: "fst (get_current_ip w) = Some ip \<and> ip \<noteq> [] \<and> fst (get_last_known_ip w) = Inl e"
  have "fst (run_body u w) = Inl e \<and>
       stdout (run u w) = stdout w @ [ERROR (clock w (ticks (run u w) - 1)) e] \<and>
       provider_calls (run u w) = provider_calls w \<and>
       ip_cache_file (run u w) = ip_cache_file w"
  proof (cases rule: run_body_cases [of u w])
    case (early e' ls n)
    then have "e' = e" using a by auto
    then show ?thesis
      using early(1,2)
      by (simp add: run_def provider_calls_def lookups_only_def filter_empty_conv)
  next
    case (same ip' et ls)
    then show ?thesis using a by simp
  next
    case (changed ip' last_ip et ls n out)
    then show ?thesis using a by simp
  qed
  then show "fst (run_body u w) = Inl e"
    and "stdout (run u w) = stdout w @ [ERROR (clock w (ticks (run u w) - 1)) e]"
    and "provider_calls (run u w) = provider_calls w"
    and "ip_cache_file (run u w) = ip_cache_file w"
    by simp_all
qed

theorem get_last_known_ip_missing_or_malformed_witness:
  "get_last_known_ip (example_world\<lparr>ip_cache_file := Some ''garbage''\<rparr>) =
     (Inl ValueError, example_world\<lparr>ip_cache_file := Some ''garbage''\<rparr>) \<and>
   get_last_known_ip malformed_state_world = (Inl ValueError, malformed_state_world) \<and>
   get_last_known_ip aware_state_world = (Inl TypeError, aware_state_world\<lparr>ticks := 1\<rparr>) \<and>
   fst (get_last_known_ip first_run_world) = Inr (None, None) \<and>
   stdout (run example_updater malformed_state_world) = [ERROR (example_clock 0) ValueError] \<and>
   stdout (run example_updater aware_state_world) = [ERROR (example_clock 1) TypeError] \<and>
   provider_calls (run example_updater aware_state_world) = [] \<and>
   ip_cache_file (run example_updater aware_state_world) =
     Some ''203.0.113.5,2024-01-01T00:00:00+00:00''"
proof -
  let ?g = "example_world\<lparr>ip_cache_file := Some ''garbage''\<rparr>"
  let ?m = malformed_state_world and ?a = aware_state_world and ?u = example_updater
  note load = get_last_known_ip_missing_or_malformed
  have f: "split CHR '','' (strip (universal_newlines ''garbage'')) = [''garbage'']"
    "split CHR '','' (strip (universal_newlines ''203.0.113.5,yesterday'')) =
       [''203.0.113.5'', ''yesterday'']"
    "split CHR '','' (strip (universal_newlines ''203.0.113.5,2024-01-01T00:00:00+00:00'')) =
       [''203.0.113.5'', ''2024-01-01T00:00:00+00:00'']"
    by (simp_all add: strip_def isspace_def)
  have p: "fromisoformat ?m ''yesterday'' = IsoValueError"
    "fromisoformat ?a ''2024-01-01T00:00:00+00:00'' = Aware"
    by (simp_all add: malformed_state_world_def aware_state_world_def example_world_def
        example_fromisoformat_def read_isoformat_def parse_isoformat_date_def
        parse_isoformat_time_def parse_digits_def digit_of_def)
  have w: "ip_cache_file ?m = Some ''203.0.113.5,yesterday''"
    "ip_cache_file ?a = Some ''203.0.113.5,2024-01-01T00:00:00+00:00''"
    "ticks ?m = 0" "ticks ?a = 0" "clock ?m = example_clock" "clock ?a = example_clock"
    "stdout ?m = []" "stdout ?a = []" "events ?a = []"
    by (simp_all add: malformed_state_world_def aware_state_world_def example_world_def)
  have g: "ip_cache_file ?g = Some ''garbage'' \<and>
       (length (split CHR '','' (strip (universal_newlines ''garbage''))) \<noteq> 2 \<or>
        fromisoformat ?g (split CHR '','' (strip (universal_newlines ''garbage'')) ! 1) =
          IsoValueError)"
    unfolding f by simp
  have m: "ip_cache_file ?m = Some ''203.0.113.5,yesterday'' \<and>
       (length (split CHR '','' (strip (universal_newlines ''203.0.113.5,yesterday''))) \<noteq> 2 \<or>
        fromisoformat ?m
          (split CHR '','' (strip (universal_newlines ''203.0.113.5,yesterday'')) ! 1) =
          IsoValueError)"
    unfolding f by (simp add: p w)
  have a: "ip_cache_file ?a = Some ''203.0.113.5,2024-01-01T00:00:00+00:00'' \<and>
       length (split CHR '','' (strip (universal_newlines
         ''203.0.113.5,2024-01-01T00:00:00+00:00''))) = 2 \<and>
       fromisoformat ?a (split CHR '','' (strip (universal_newlines
         ''203.0.113.5,2024-01-01T00:00:00+00:00'')) ! 1) = Aware"
    unfolding f by (simp add: p w)
  have 1: "get_last_known_ip ?g = (Inl ValueError, ?g)"
    using load [of ?g ?u, THEN conjunct2, THEN conjunct1, rule_format, OF g] .
  have 2: "get_last_known_ip ?m = (Inl ValueError, ?m)"
    using load [of ?m ?u, THEN conjunct2, THEN conjunct1, rule_format, OF m] .
  have 3: "get_last_known_ip ?a = (Inl TypeError, ?a\<lparr>ticks := 1\<rparr>)"
    using load [of ?a ?u, THEN conjunct2, THEN conjunct2, THEN conjunct1, rule_format, OF a]
    by (simp add: w)
  have 4: "fst (get_last_known_ip first_run_world) = Inr (None, None)"
    using load [of first_run_world ?u, THEN conjunct1] by (simp add: example_defs)
  have dm: "fst (get_current_ip ?m) = Some ''203.0.113.5''"
    and da: "fst (get_current_ip ?a) = Some ''203.0.113.5''"
    by (simp_all add: model_defs example_defs strip_def isspace_def)
  have rm: "fst (run_body ?u ?m) = Inl ValueError \<and>
      stdout (run ?u ?m) = stdout ?m @ [ERROR (clock ?m (ticks (run ?u ?m) - 1)) ValueError]"
    using load [of ?m ?u, THEN conjunct2, THEN conjunct2, THEN conjunct2, rule_format,
        of "''203.0.113.5''" ValueError] dm 2
    by simp
  have ra: "fst (run_body ?u ?a) = Inl TypeError \<and>
      stdout (run ?u ?a) = stdout ?a @ [ERROR (clock ?a (ticks (run ?u ?a) - 1)) TypeError] \<and>
      provider_calls (run ?u ?a) = provider_calls ?a \<and>
      ip_cache_file (run ?u ?a) = ip_cache_file ?a"
    using load [of ?a ?u, THEN conjunct2, THEN conjunct2, THEN conjunct2, rule_format,
        of "''203.0.113.5''" TypeError] da 3
    by simp
  obtain cm wm where cm: "get_current_ip ?m = (cm, wm)" by (cases "get_current_ip ?m")
  then obtain lm where "wm = ?m\<lparr>events := events ?m @ lm\<rparr>" by (rule get_current_ip_frame)
  with cm dm have gm: "get_current_ip ?m = (Some ''203.0.113.5'', ?m\<lparr>events := events ?m @ lm\<rparr>)"
    by simp
  obtain ca wa where ca: "get_current_ip ?a = (ca, wa)" by (cases "get_current_ip ?a")
  then obtain la where "wa = ?a\<lparr>events := events ?a @ la\<rparr>" by (rule get_current_ip_frame)
  with ca da have ga: "get_current_ip ?a = (Some ''203.0.113.5'', ?a\<lparr>events := events ?a @ la\<rparr>)"
    by simp
  have tm: "ticks (run ?u ?m) = 1"
    by (simp add: run_def run_body_def gm get_last_known_ip_events 2 w)
  have ta: "ticks (run ?u ?a) = 2"
    by (simp add: run_def run_body_def ga get_last_known_ip_events 3 w)
  show ?thesis
    using 1 2 3 4 rm ra by (simp add: tm ta w provider_calls_def)
qed

section \<open>Errors and the exit status\<close>

text \<open>
  C9, amended. Whatever the body of \<^verbatim>\<open>run\<close> raises is caught by the handler of \<^verbatim>\<open>run\<close>,
  which prints exactly one \<^verbatim>\<open>ERROR\<close> line with the clock reading and the error, as the last
  line of the run; a body that raises nothing prints no \<^verbatim>\<open>ERROR\<close> line. Once the
  constructor has succeeded the process therefore exits with success, whatever the run
  does. What the entry point raises before the run, while it reads the configuration and
  constructs the updater, is not caught: the process exits with a failure and has done
  and printed nothing.
\<close>

theorem run_catches_every_error:
  "(\<forall>e. fst (run_body u w) = Inl e \<longrightarrow>
      filter is_error_line (stdout (run u w)) =
        filter is_error_line (stdout w) @ [ERROR (clock w (ticks (run u w) - 1)) e] \<and>
      last (stdout (run u w)) = ERROR (clock w (ticks (run u w) - 1)) e) \<and>
   ((\<exists>x. fst (run_body u w) = Inr x) \<longrightarrow>
      filter is_error_line (stdout (run u w)) = filter is_error_line (stdout w)) \<and>
   (\<forall>cfg. config_file w = Inr cfg \<and> init cfg = Inr u \<longrightarrow> main w = (ExitSuccess, run u w)) \<and>
   (\<forall>e. fst (main w) = ExitFailure e \<longleftrightarrow>
      config_file w = Inl e \<or> (\<exists>cfg. config_file w = Inr cfg \<and> init cfg = Inl e)) \<and>
   (\<forall>e. fst (main w) = ExitFailure e \<longrightarrow> snd (main w) = w)"
proof -
  have log: "(\<forall>e. fst (run_body u w) = Inl e \<longrightarrow>
      filter is_error_line (stdout (run u w)) =
        filter is_error_line (stdout w) @ [ERROR (clock w (ticks (run u w) - 1)) e] \<and>
      last (stdout (run u w)) = ERROR (clock w (ticks (run u w) - 1)) e) \<and>
   ((\<exists>x. fst (run_body u w) = Inr x) \<longrightarrow>
      filter is_error_line (stdout (run u w)) = filter is_error_line (stdout w))"
  proof (cases rule: run_body_cases [of u w])
    case (early e ls)
    then show ?thesis by (simp add: run_def)
  next
    case (same ip et ls)
    then show ?thesis by (simp add: run_def)
  next
    case (changed ip last_ip et ls n out)
    obtain es where es: "snd (update_dns_records u ip w) = w\<lparr>events := events w @ es\<rparr>"
      using update_dns_records_frame [of u ip w] by blast
    let ?W = "w\<lparr>ticks := n, events := events w @ ls @ es, stdout := stdout w @ out\<rparr>"
    have u3: "update_dns_records u ip
        (w\<lparr>ticks := n, events := events w @ ls, stdout := stdout w @ out\<rparr>) =
        (fst (update_dns_records u ip w), ?W)"
      by (simp add: update_dns_records_stdout update_dns_records_events update_dns_records_ticks
          es new_events_def)
    have out: "filter is_error_line out = []"
      using changed(9) by (simp add: filter_empty_conv)
    show ?thesis
    proof (cases "fst (update_dns_records u ip w)")
      case (Inl e)
      then have "run_body u w = (Inl e, ?W)" using changed(6) by (simp add: u3)
      then show ?thesis using out by (simp add: run_def)
    next
      case (Inr b)
      then have "run_body u w = (Inr (), save_current_ip ip ?W)"
        using changed(6) by (simp add: u3)
      then show ?thesis using out by (simp add: run_def)
    qed
  qed
  have entry: "(\<forall>cfg. config_file w = Inr cfg \<and> init cfg = Inr u \<longrightarrow> main w = (ExitSuccess, run u w)) \<and>
   (\<forall>e. fst (main w) = ExitFailure e \<longleftrightarrow>
      config_file w = Inl e \<or> (\<exists>cfg. config_file w = Inr cfg \<and> init cfg = Inl e)) \<and>
   (\<forall>e. fst (main w) = ExitFailure e \<longrightarrow> snd (main w) = w)"
    by (auto simp: main_def split: sum.splits)
  from log entry show ?thesis by blast
qed

theorem run_catches_every_error_witness:
  "fst (run_body example_updater read_failure_world) =
     Inl (Exception ''Failed to get DNS records: internal error'') \<and>
   stdout (run example_updater read_failure_world) =
     [ERROR (example_clock 0) (Exception ''Failed to get DNS records: internal error'')] \<and>
   init example_config = Inr example_updater \<and>
   main read_failure_world = (ExitSuccess, run example_updater read_failure_world)"
proof -
  let ?w = read_failure_world and ?u = example_updater
  let ?e = "Exception ''Failed to get DNS records: internal error''"
  have b: "fst (run_body ?u ?w) = Inl ?e"
    by (simp add: model_defs example_defs strip_def isspace_def)
  have t: "ticks (run ?u ?w) = 1"
    by (simp add: model_defs example_defs strip_def isspace_def)
  have c: "config_file ?w = Inr example_config \<and> init example_config = Inr ?u"
    by (simp add: example_defs init_def)
  have "filter is_error_line (stdout (run ?u ?w)) =
        filter is_error_line (stdout ?w) @ [ERROR (clock ?w (ticks (run ?u ?w) - 1)) ?e]"
    using run_catches_every_error [of ?u ?w, THEN conjunct1, rule_format, OF b] by simp
  moreover have "main ?w = (ExitSuccess, run ?u ?w)"
    using run_catches_every_error [of ?u ?w, THEN conjunct2, THEN conjunct2, THEN conjunct1,
        rule_format, OF c] .
  moreover have "stdout (run ?u ?w) =
     [ERROR (example_clock 0) (Exception ''Failed to get DNS records: internal error'')]"
    by (simp add: model_defs example_defs strip_def isspace_def)
  ultimately show ?thesis using b c by simp
qed

text \<open>
  As stated, C9 fails for the errors of the constructor, which the entry point calls
  outside \<^verbatim>\<open>run\<close>: with a configuration that lacks \<^verbatim>\<open>zone_id\<close> the process ends with the
  \<^verbatim>\<open>KeyError\<close> as a failure, and nothing is logged.
\<close>

theorem run_catches_every_error_counterexample:
  "fst (main incomplete_config_world) = ExitFailure (KeyError ''zone_id'') \<and>
   stdout (snd (main incomplete_config_world)) = []"
  by (simp add: main_def init_def example_defs)

end
